theory Spec2Isabelle
  imports Main
begin

section \<open>Custody state machine of the product routes\<close>

text \<open>
  The development embeds \<^verbatim>\<open>backend/routes/product_routes.py\<close>: the rule tables, the
  helper \<^verbatim>\<open>status_index\<close> and the three handlers that write to the store
  (\<^verbatim>\<open>create_product\<close>, \<^verbatim>\<open>explicit_custody_transfer\<close>, \<^verbatim>\<open>delete_product\<close>).
  The remaining handlers of the file only read the store and the chain.

  Each handler is modelled as the Python function that the \<^verbatim>\<open>def\<close> introduces, that is
  the body that runs once the decorators \<^verbatim>\<open>jwt_required\<close> and \<^verbatim>\<open>role_required\<close> (module
  \<^verbatim>\<open>utils.roles\<close>) have let the call through. The JWT claims \<^verbatim>\<open>username\<close> and
  \<^verbatim>\<open>role\<close> are the arguments \<open>actor\<close> and \<open>role\<close>; the fields read from the request body
  with \<^verbatim>\<open>data.get\<close> are optional arguments, \<open>None\<close> when the key is missing.
\<close>

subsection \<open>Rule tables\<close>

definition STATUS_ORDER :: "string list" where
  "STATUS_ORDER =
     [''Created'', ''ReadyForShipping'', ''Shipped'', ''InTransit'',
      ''DeliveredToRetailer'', ''AvailableForSale'', ''Sold'', ''Recalled'']"

definition ROLE_ALLOWED :: "(string \<times> string list) list" where
  "ROLE_ALLOWED =
     [(''manufacturer'', [''Created'', ''ReadyForShipping'']),
      (''distributor'', [''Shipped'', ''InTransit'', ''DeliveredToRetailer'']),
      (''retailer'', [''AvailableForSale'', ''Sold''])]"

definition NEXT_ROLE_MAP :: "(string \<times> string) list" where
  "NEXT_ROLE_MAP =
     [(''ReadyForShipping'', ''distributor''),
      (''DeliveredToRetailer'', ''retailer'')]"

definition DISTRIBUTOR_SEQUENCE_MAP :: "(string \<times> string) list" where
  "DISTRIBUTOR_SEQUENCE_MAP =
     [(''InTransit'', ''Shipped''),
      (''DeliveredToRetailer'', ''InTransit'')]"

text \<open>\<^verbatim>\<open>list.index\<close>, with \<open>None\<close> where Python raises \<^verbatim>\<open>ValueError\<close>.\<close>

fun index_of :: "'a \<Rightarrow> 'a list \<Rightarrow> nat option" where
  "index_of x [] = None"
| "index_of x (y # ys) = (if x = y then Some 0 else map_option Suc (index_of x ys))"

definition status_index :: "string \<Rightarrow> nat option" where
  "status_index s = index_of s STATUS_ORDER"

text \<open>\<^verbatim>\<open>ROLE_ALLOWED.get(role, [])\<close>.\<close>

definition role_allowed :: "string \<Rightarrow> string list" where
  "role_allowed role = (case map_of ROLE_ALLOWED role of None \<Rightarrow> [] | Some ss \<Rightarrow> ss)"

text \<open>
  The comparison \<^verbatim>\<open>a <= b\<close> of two results of \<^verbatim>\<open>status_index\<close>: Python orders two
  integers and raises \<^verbatim>\<open>TypeError\<close> (here \<open>None\<close>) as soon as one side is \<^verbatim>\<open>None\<close>.
\<close>

fun py_le :: "nat option \<Rightarrow> nat option \<Rightarrow> bool option" where
  "py_le (Some a) (Some b) = Some (a \<le> b)"
| "py_le _ _ = None"

subsection \<open>Store, ledger and responses\<close>

record product =
  product_id :: string
  name :: string
  owner :: string
  custodian :: string
  current_status :: string
  description :: string

text \<open>
  A row of the History table. The coordinates are whatever values the request carried
  (type \<open>'c\<close>); the timestamp is set by \<^verbatim>\<open>create_product\<close> only, the transfer leaves it
  to the column default.
\<close>

record ('c, 't) history =
  h_product_id :: string
  status :: string
  by_who :: string
  timestamp :: "'t option"
  latitude :: "'c option"
  longitude :: "'c option"

record user =
  username :: string
  role_of :: string

record ('c, 't) db =
  products :: "product list"
  histories :: "('c, 't) history list"
  users :: "user list"

text \<open>The payload handed to the ledger: the dict literal, keys in the order written.\<close>

type_synonym event = "(string \<times> string) list"

text \<open>
  The ledger object \<^verbatim>\<open>current_app.config["BLOCKCHAIN"]\<close> has type \<open>'bc\<close>. Its class lives
  in the module \<^verbatim>\<open>blockchain\<close>, so the handlers take the append as the argument
  \<open>add_block\<close>: applied to a payload and a ledger it yields the ledger afterwards and
  \<open>Some\<close> of the dict of the new block (\<^verbatim>\<open>bc.add_block(...).to_dict()\<close>), or \<open>None\<close>
  when the call raised.
\<close>

type_synonym ('bc, 'blk) appender = "event \<Rightarrow> 'bc \<Rightarrow> 'blk option \<times> 'bc"

text \<open>
  What the caller gets: \<open>ErrorJson msg code\<close> is \<^verbatim>\<open>jsonify({"error": msg}), code\<close>;
  \<open>Updated p b\<close> is the 200 answer of the transfer with the product and the block field;
  \<open>ProductCreated p b\<close> the 201 answer of the creation (its QR fields are left out);
  \<open>ProductDeleted i b\<close> the 200 answer of the deletion; \<open>Unhandled\<close> is an exception
  that leaves the handler.
\<close>

datatype 'blk response =
    ErrorJson string nat
  | Updated product "'blk option"
  | ProductCreated product 'blk
  | ProductDeleted string "'blk option"
  | Unhandled

subsection \<open>String helpers\<close>

definition sq :: string where
  "sq = [CHR 0x27]"

text \<open>Python's truth test of a request field: missing, null and the empty string fail it.\<close>

definition falsy :: "string option \<Rightarrow> bool" where
  "falsy v = (case v of None \<Rightarrow> True | Some s \<Rightarrow> s = [])"

text \<open>
  \<^verbatim>\<open>f"{lat},{lon}" if lat is not None else "N/A"\<close>. The argument \<open>fmt\<close> is the text that
  formatting gives for a coordinate value that is present; \<^verbatim>\<open>None\<close> formats as its name.
\<close>

definition location :: "('c \<Rightarrow> string) \<Rightarrow> 'c option \<Rightarrow> 'c option \<Rightarrow> string" where
  "location fmt lat lon =
     (case lat of
        None \<Rightarrow> ''N/A''
      | Some a \<Rightarrow> fmt a @ '','' @ (case lon of None \<Rightarrow> ''None'' | Some b \<Rightarrow> fmt b))"

subsection \<open>Queries and row updates\<close>

text \<open>\<^verbatim>\<open>Product.query.filter_by(product_id=pid).first()\<close>.\<close>

definition get_product_row :: "('c, 't) db \<Rightarrow> string \<Rightarrow> product option" where
  "get_product_row d pid = find (\<lambda>p. product_id p = pid) (products d)"

text \<open>\<^verbatim>\<open>User.query.filter_by(username=transfer_to).first()\<close>.\<close>

definition get_user_row :: "('c, 't) db \<Rightarrow> string \<Rightarrow> user option" where
  "get_user_row d u = find (\<lambda>r. username r = u) (users d)"

text \<open>Writing the attributes of the row a query returned: the first match changes.\<close>

fun update_first :: "('a \<Rightarrow> bool) \<Rightarrow> ('a \<Rightarrow> 'a) \<Rightarrow> 'a list \<Rightarrow> 'a list" where
  "update_first P f [] = []"
| "update_first P f (x # xs) = (if P x then f x # xs else x # update_first P f xs)"

text \<open>\<^verbatim>\<open>db.session.delete(row)\<close> for the row a query returned.\<close>

fun remove_first :: "('a \<Rightarrow> bool) \<Rightarrow> 'a list \<Rightarrow> 'a list" where
  "remove_first P [] = []"
| "remove_first P (x # xs) = (if P x then xs else x # remove_first P xs)"

subsection \<open>The transfer handler\<close>

definition transfer_event ::
  "('c \<Rightarrow> string) \<Rightarrow> string \<Rightarrow> string \<Rightarrow> string \<Rightarrow> string \<Rightarrow> 'c option \<Rightarrow> 'c option \<Rightarrow> event"
where
  "transfer_event fmt pid new_status actor new_custodian lat lon =
     [(''type'', if map_of NEXT_ROLE_MAP new_status \<noteq> None
                 then ''custody_transfer'' else ''status_update''),
      (''product_id'', pid), (''status'', new_status),
      (''actor'', actor), (''new_custodian'', new_custodian),
      (''location'', location fmt lat lon)]"

text \<open>Lines 122 to 140: the commit of the projection, then the guarded ledger append.\<close>

definition commit_transfer ::
  "('bc, 'blk) appender \<Rightarrow> ('c \<Rightarrow> string) \<Rightarrow> string \<Rightarrow> string \<Rightarrow> string \<Rightarrow> string \<Rightarrow>
   'c option \<Rightarrow> 'c option \<Rightarrow> product \<Rightarrow> ('c, 't) db \<times> 'bc \<Rightarrow>
   'blk response \<times> ('c, 't) db \<times> 'bc"
where
  "commit_transfer add_block fmt actor pid new_status new_custodian lat lon p st =
     (let p' = p\<lparr>custodian := new_custodian, current_status := new_status\<rparr>;
          hist = \<lparr>h_product_id = pid, status = new_status, by_who = actor,
                  timestamp = None, latitude = lat, longitude = lon\<rparr>;
          d' = (fst st)\<lparr>products := update_first (\<lambda>r. product_id r = pid)
                                       (\<lambda>_. p') (products (fst st)),
                        histories := histories (fst st) @ [hist]\<rparr>;
          (block_info, bc') =
             add_block (transfer_event fmt pid new_status actor new_custodian lat lon)
                       (snd st)
      in (Updated p' block_info, d', bc'))"

text \<open>Lines 96 to 120, in the order of the source; every \<^verbatim>\<open>return\<close> is a branch.\<close>

definition explicit_custody_transfer ::
  "('bc, 'blk) appender \<Rightarrow> ('c \<Rightarrow> string) \<Rightarrow> string \<Rightarrow> string \<Rightarrow>
   string option \<Rightarrow> string option \<Rightarrow> string option \<Rightarrow> 'c option \<Rightarrow> 'c option \<Rightarrow>
   ('c, 't) db \<times> 'bc \<Rightarrow> 'blk response \<times> ('c, 't) db \<times> 'bc"
where
  "explicit_custody_transfer add_block fmt actor role pid_opt status_opt transfer_to lat lon st =
     (if falsy pid_opt \<or> falsy status_opt
      then (ErrorJson ''product_id and status are required'' 400, st)
      else
        let pid = the pid_opt; new_status = the status_opt in
        (case get_product_row (fst st) pid of
          None \<Rightarrow> (ErrorJson ''Product not found'' 404, st)
        | Some p \<Rightarrow>
            if custodian p \<noteq> actor \<and> role \<noteq> ''super_admin''
            then (ErrorJson (''Action failed: You are not the current custodian (''
                             @ sq @ custodian p @ sq @ '')'') 403, st)
            else if new_status \<notin> set (role_allowed role)
            then (ErrorJson (''Your role '' @ sq @ role @ sq @ '' cannot set status ''
                             @ sq @ new_status @ sq) 403, st)
            else
              (case py_le (status_index new_status) (status_index (current_status p)) of
                None \<Rightarrow> (Unhandled, st)
              | Some True \<Rightarrow>
                  (ErrorJson (''Invalid transition from '' @ sq @ current_status p @ sq
                              @ '' to '' @ sq @ new_status @ sq) 403, st)
              | Some False \<Rightarrow>
                  if role = ''distributor''
                     \<and> map_of DISTRIBUTOR_SEQUENCE_MAP new_status \<noteq> None
                     \<and> current_status p \<noteq> the (map_of DISTRIBUTOR_SEQUENCE_MAP new_status)
                  then (ErrorJson (''Invalid sequence: To set status to '' @ sq @ new_status
                                   @ sq @ '', product must first be in '' @ sq
                                   @ the (map_of DISTRIBUTOR_SEQUENCE_MAP new_status) @ sq
                                   @ '' status.'') 403, st)
                  else
                    (case map_of NEXT_ROLE_MAP new_status of
                      None \<Rightarrow>
                        commit_transfer add_block fmt actor pid new_status actor lat lon p st
                    | Some expected_role \<Rightarrow>
                        if falsy transfer_to
                        then (ErrorJson (sq @ ''transfer_to_username'' @ sq
                                         @ '' is required for status '' @ sq @ new_status
                                         @ sq) 400, st)
                        else
                          (case get_user_row (fst st) (the transfer_to) of
                            None \<Rightarrow>
                              (ErrorJson (''Recipient '' @ sq @ the transfer_to @ sq
                                          @ '' not found'') 404, st)
                          | Some recipient \<Rightarrow>
                              if role_of recipient \<noteq> expected_role
                              then (ErrorJson (''Can only transfer to '' @ sq @ expected_role
                                               @ sq @ '', but '' @ sq @ username recipient
                                               @ sq @ '' is a '' @ sq @ role_of recipient
                                               @ sq) 400, st)
                              else commit_transfer add_block fmt actor pid new_status
                                     (username recipient) lat lon p st)))))"

text \<open>The test of lines 108 to 110 lets the request through.\<close>

definition sequence_ok :: "string \<Rightarrow> string \<Rightarrow> string \<Rightarrow> bool" where
  "sequence_ok role new_status current =
     (role = ''distributor'' \<longrightarrow>
        (case map_of DISTRIBUTOR_SEQUENCE_MAP new_status of
           None \<Rightarrow> True
         | Some required \<Rightarrow> current = required))"

subsection \<open>Creation and deletion\<close>

text \<open>
  Modelled from the spec: the column default of \<^verbatim>\<open>Product.current_status\<close>. The class
  \<^verbatim>\<open>Product\<close> is in the module \<^verbatim>\<open>models\<close>; \<^verbatim>\<open>create_product\<close> passes no status to
  its constructor, and the spec gives the initial status as \<^verbatim>\<open>Created\<close>.
\<close>

definition default_status :: string where
  "default_status = ''Created''"

definition create_event ::
  "('c \<Rightarrow> string) \<Rightarrow> string \<Rightarrow> string \<Rightarrow> 'c option \<Rightarrow> 'c option \<Rightarrow> event"
where
  "create_event fmt pid actor lat lon =
     [(''type'', ''create_product''), (''product_id'', pid),
      (''action'', ''Product Created''),
      (''owner'', actor), (''initial_custodian'', actor),
      (''location'', location fmt lat lon)]"

text \<open>
  \<^verbatim>\<open>create_product\<close>. The results of \<^verbatim>\<open>gen_product_id()\<close> and \<^verbatim>\<open>now_ts()\<close> (module
  \<^verbatim>\<open>utils.helpers\<close>) are the arguments \<open>pid\<close> and \<open>now\<close>. The ledger append is not
  guarded here: if it raises, the exception leaves the handler after the commit.
\<close>

definition create_product ::
  "('bc, 'blk) appender \<Rightarrow> ('c \<Rightarrow> string) \<Rightarrow> string \<Rightarrow> 't \<Rightarrow> string \<Rightarrow>
   string option \<Rightarrow> string option \<Rightarrow> 'c option \<Rightarrow> 'c option \<Rightarrow>
   ('c, 't) db \<times> 'bc \<Rightarrow> 'blk response \<times> ('c, 't) db \<times> 'bc"
where
  "create_product add_block fmt pid now actor name_opt description_opt lat lon st =
     (if falsy name_opt then (ErrorJson ''Product name is required'' 400, st)
      else
        let p = \<lparr>product_id = pid, name = the name_opt, owner = actor, custodian = actor,
                 current_status = default_status,
                 description = (case description_opt of None \<Rightarrow> [] | Some t \<Rightarrow> t)\<rparr>;
            hist = \<lparr>h_product_id = pid, status = ''Created'', by_who = actor,
                    timestamp = Some now, latitude = lat, longitude = lon\<rparr>;
            d' = (fst st)\<lparr>products := products (fst st) @ [p],
                          histories := histories (fst st) @ [hist]\<rparr>;
            (block, bc') = add_block (create_event fmt pid actor lat lon) (snd st)
        in (case block of
              None \<Rightarrow> (Unhandled, d', bc')
            | Some b \<Rightarrow> (ProductCreated p b, d', bc')))"

text \<open>
  \<^verbatim>\<open>delete_product\<close>, with the ledger configured as \<^verbatim>\<open>create_app\<close> leaves it. The
  append is not guarded here either.
\<close>

definition delete_product ::
  "('bc, 'blk) appender \<Rightarrow> string \<Rightarrow> string \<Rightarrow>
   ('c, 't) db \<times> 'bc \<Rightarrow> 'blk response \<times> ('c, 't) db \<times> 'bc"
where
  "delete_product add_block actor pid st =
     (case get_product_row (fst st) pid of
        None \<Rightarrow> (ErrorJson ''product not found'' 404, st)
      | Some p \<Rightarrow>
          let d' = (fst st)\<lparr>products := remove_first (\<lambda>r. product_id r = pid)
                                         (products (fst st)),
                          histories := filter (\<lambda>h. h_product_id h \<noteq> pid)
                                         (histories (fst st))\<rparr>;
              (block, bc') =
                 add_block [(''type'', ''delete_product''), (''product_id'', pid),
                            (''deleted_by'', actor)] (snd st)
          in (case block of
                None \<Rightarrow> (Unhandled, d', bc')
              | Some b \<Rightarrow> (ProductDeleted pid (Some b), d', bc')))"

subsection \<open>Sample data\<close>

text \<open>
  A store with one product \<^verbatim>\<open>P1\<close> created by alice, held by \<open>holder\<close> at stage
  \<open>stage\<close>, and four users; a ledger that records the payloads it is given, and one
  whose append always raises. They serve the closed instances of the theorems below.
\<close>

definition sample_users :: "user list" where
  "sample_users =
     [\<lparr>username = ''alice'', role_of = ''manufacturer''\<rparr>,
      \<lparr>username = ''bob'', role_of = ''distributor''\<rparr>,
      \<lparr>username = ''carol'', role_of = ''distributor''\<rparr>,
      \<lparr>username = ''dan'', role_of = ''retailer''\<rparr>]"

definition sample_store :: "string \<Rightarrow> string \<Rightarrow> (string, nat) db" where
  "sample_store holder stage =
     \<lparr>products = [\<lparr>product_id = ''P1'', name = ''Widget'', owner = ''alice'',
                    custodian = holder, current_status = stage, description = []\<rparr>],
      histories = [], users = sample_users\<rparr>"

definition recording_ledger :: "(event list, nat) appender" where
  "recording_ledger ev chain = (Some (length chain), chain @ [ev])"

definition failing_ledger :: "(event list, nat) appender" where
  "failing_ledger ev chain = (None, chain)"

section \<open>Branch lemmas for the transfer handler\<close>

text \<open>One equation for each exit of the handler, under the tests that lead to it.\<close>

lemma falsy_simps [simp]: "falsy None" "falsy (Some s) = (s = [])"
  by (simp_all add: falsy_def)

lemma ect_missing_field:
  "falsy pid_opt \<or> falsy status_opt \<Longrightarrow>
   explicit_custody_transfer add_block fmt actor role pid_opt status_opt transfer_to lat lon st
     = (ErrorJson ''product_id and status are required'' 400, st)"
  by (simp add: explicit_custody_transfer_def)

lemma ect_not_found:
  "pid \<noteq> [] \<Longrightarrow> new_status \<noteq> [] \<Longrightarrow> get_product_row (fst st) pid = None \<Longrightarrow>
   explicit_custody_transfer add_block fmt actor role (Some pid) (Some new_status)
       transfer_to lat lon st
     = (ErrorJson ''Product not found'' 404, st)"
  by (simp add: explicit_custody_transfer_def)

lemma ect_wrong_custodian:
  "pid \<noteq> [] \<Longrightarrow> new_status \<noteq> [] \<Longrightarrow> get_product_row (fst st) pid = Some p \<Longrightarrow>
   custodian p \<noteq> actor \<Longrightarrow> role \<noteq> ''super_admin'' \<Longrightarrow>
   explicit_custody_transfer add_block fmt actor role (Some pid) (Some new_status)
       transfer_to lat lon st
     = (ErrorJson (''Action failed: You are not the current custodian (''
                   @ sq @ custodian p @ sq @ '')'') 403, st)"
  by (simp add: explicit_custody_transfer_def)

lemma ect_role_denied:
  "pid \<noteq> [] \<Longrightarrow> new_status \<noteq> [] \<Longrightarrow> get_product_row (fst st) pid = Some p \<Longrightarrow>
   custodian p = actor \<or> role = ''super_admin'' \<Longrightarrow>
   new_status \<notin> set (role_allowed role) \<Longrightarrow>
   explicit_custody_transfer add_block fmt actor role (Some pid) (Some new_status)
       transfer_to lat lon st
     = (ErrorJson (''Your role '' @ sq @ role @ sq @ '' cannot set status ''
                   @ sq @ new_status @ sq) 403, st)"
  by (auto simp add: explicit_custody_transfer_def)

lemma ect_type_error:
  "pid \<noteq> [] \<Longrightarrow> new_status \<noteq> [] \<Longrightarrow> get_product_row (fst st) pid = Some p \<Longrightarrow>
   custodian p = actor \<or> role = ''super_admin'' \<Longrightarrow>
   new_status \<in> set (role_allowed role) \<Longrightarrow>
   py_le (status_index new_status) (status_index (current_status p)) = None \<Longrightarrow>
   explicit_custody_transfer add_block fmt actor role (Some pid) (Some new_status)
       transfer_to lat lon st
     = (Unhandled, st)"
  by (auto simp add: explicit_custody_transfer_def)

lemma ect_invalid_transition:
  "pid \<noteq> [] \<Longrightarrow> new_status \<noteq> [] \<Longrightarrow> get_product_row (fst st) pid = Some p \<Longrightarrow>
   custodian p = actor \<or> role = ''super_admin'' \<Longrightarrow>
   new_status \<in> set (role_allowed role) \<Longrightarrow>
   py_le (status_index new_status) (status_index (current_status p)) = Some True \<Longrightarrow>
   explicit_custody_transfer add_block fmt actor role (Some pid) (Some new_status)
       transfer_to lat lon st
     = (ErrorJson (''Invalid transition from '' @ sq @ current_status p @ sq
                   @ '' to '' @ sq @ new_status @ sq) 403, st)"
  by (auto simp add: explicit_custody_transfer_def)

lemma ect_invalid_sequence:
  "pid \<noteq> [] \<Longrightarrow> new_status \<noteq> [] \<Longrightarrow> get_product_row (fst st) pid = Some p \<Longrightarrow>
   custodian p = actor \<or> role = ''super_admin'' \<Longrightarrow>
   new_status \<in> set (role_allowed role) \<Longrightarrow>
   py_le (status_index new_status) (status_index (current_status p)) = Some False \<Longrightarrow>
   role = ''distributor'' \<Longrightarrow>
   map_of DISTRIBUTOR_SEQUENCE_MAP new_status = Some required \<Longrightarrow>
   current_status p \<noteq> required \<Longrightarrow>
   explicit_custody_transfer add_block fmt actor role (Some pid) (Some new_status)
       transfer_to lat lon st
     = (ErrorJson (''Invalid sequence: To set status to '' @ sq @ new_status
                   @ sq @ '', product must first be in '' @ sq @ required @ sq
                   @ '' status.'') 403, st)"
  by (auto simp add: explicit_custody_transfer_def)

lemma ect_missing_target:
  "pid \<noteq> [] \<Longrightarrow> new_status \<noteq> [] \<Longrightarrow> get_product_row (fst st) pid = Some p \<Longrightarrow>
   custodian p = actor \<or> role = ''super_admin'' \<Longrightarrow>
   new_status \<in> set (role_allowed role) \<Longrightarrow>
   py_le (status_index new_status) (status_index (current_status p)) = Some False \<Longrightarrow>
   sequence_ok role new_status (current_status p) \<Longrightarrow>
   map_of NEXT_ROLE_MAP new_status = Some expected_role \<Longrightarrow>
   falsy transfer_to \<Longrightarrow>
   explicit_custody_transfer add_block fmt actor role (Some pid) (Some new_status)
       transfer_to lat lon st
     = (ErrorJson (sq @ ''transfer_to_username'' @ sq @ '' is required for status ''
                   @ sq @ new_status @ sq) 400, st)"
  by (auto simp add: explicit_custody_transfer_def sequence_ok_def
           simp del: map_of_eq_None_iff split: option.splits)

lemma ect_recipient_not_found:
  "pid \<noteq> [] \<Longrightarrow> new_status \<noteq> [] \<Longrightarrow> get_product_row (fst st) pid = Some p \<Longrightarrow>
   custodian p = actor \<or> role = ''super_admin'' \<Longrightarrow>
   new_status \<in> set (role_allowed role) \<Longrightarrow>
   py_le (status_index new_status) (status_index (current_status p)) = Some False \<Longrightarrow>
   sequence_ok role new_status (current_status p) \<Longrightarrow>
   map_of NEXT_ROLE_MAP new_status = Some expected_role \<Longrightarrow>
   target \<noteq> [] \<Longrightarrow> get_user_row (fst st) target = None \<Longrightarrow>
   explicit_custody_transfer add_block fmt actor role (Some pid) (Some new_status)
       (Some target) lat lon st
     = (ErrorJson (''Recipient '' @ sq @ target @ sq @ '' not found'') 404, st)"
  by (auto simp add: explicit_custody_transfer_def sequence_ok_def
           simp del: map_of_eq_None_iff split: option.splits)

lemma ect_role_mismatch:
  "pid \<noteq> [] \<Longrightarrow> new_status \<noteq> [] \<Longrightarrow> get_product_row (fst st) pid = Some p \<Longrightarrow>
   custodian p = actor \<or> role = ''super_admin'' \<Longrightarrow>
   new_status \<in> set (role_allowed role) \<Longrightarrow>
   py_le (status_index new_status) (status_index (current_status p)) = Some False \<Longrightarrow>
   sequence_ok role new_status (current_status p) \<Longrightarrow>
   map_of NEXT_ROLE_MAP new_status = Some expected_role \<Longrightarrow>
   target \<noteq> [] \<Longrightarrow> get_user_row (fst st) target = Some recipient \<Longrightarrow>
   role_of recipient \<noteq> expected_role \<Longrightarrow>
   explicit_custody_transfer add_block fmt actor role (Some pid) (Some new_status)
       (Some target) lat lon st
     = (ErrorJson (''Can only transfer to '' @ sq @ expected_role @ sq @ '', but '' @ sq
                   @ username recipient @ sq @ '' is a '' @ sq @ role_of recipient
                   @ sq) 400, st)"
  by (auto simp add: explicit_custody_transfer_def sequence_ok_def
           simp del: map_of_eq_None_iff split: option.splits)

lemma ect_commit_handoff:
  "pid \<noteq> [] \<Longrightarrow> new_status \<noteq> [] \<Longrightarrow> get_product_row (fst st) pid = Some p \<Longrightarrow>
   custodian p = actor \<or> role = ''super_admin'' \<Longrightarrow>
   new_status \<in> set (role_allowed role) \<Longrightarrow>
   py_le (status_index new_status) (status_index (current_status p)) = Some False \<Longrightarrow>
   sequence_ok role new_status (current_status p) \<Longrightarrow>
   map_of NEXT_ROLE_MAP new_status = Some expected_role \<Longrightarrow>
   target \<noteq> [] \<Longrightarrow> get_user_row (fst st) target = Some recipient \<Longrightarrow>
   role_of recipient = expected_role \<Longrightarrow>
   explicit_custody_transfer add_block fmt actor role (Some pid) (Some new_status)
       (Some target) lat lon st
     = commit_transfer add_block fmt actor pid new_status (username recipient) lat lon p st"
  by (auto simp add: explicit_custody_transfer_def sequence_ok_def
           simp del: map_of_eq_None_iff split: option.splits)

lemma ect_commit_plain:
  "pid \<noteq> [] \<Longrightarrow> new_status \<noteq> [] \<Longrightarrow> get_product_row (fst st) pid = Some p \<Longrightarrow>
   custodian p = actor \<or> role = ''super_admin'' \<Longrightarrow>
   new_status \<in> set (role_allowed role) \<Longrightarrow>
   py_le (status_index new_status) (status_index (current_status p)) = Some False \<Longrightarrow>
   sequence_ok role new_status (current_status p) \<Longrightarrow>
   map_of NEXT_ROLE_MAP new_status = None \<Longrightarrow>
   explicit_custody_transfer add_block fmt actor role (Some pid) (Some new_status)
       transfer_to lat lon st
     = commit_transfer add_block fmt actor pid new_status actor lat lon p st"
  by (auto simp add: explicit_custody_transfer_def sequence_ok_def
           simp del: map_of_eq_None_iff split: option.splits)


section \<open>What an accepted transfer has passed\<close>

lemma commit_transfer_response:
  "fst (commit_transfer add_block fmt actor pid new_status nc lat lon p st) =
     Updated (p\<lparr>custodian := nc, current_status := new_status\<rparr>)
       (fst (add_block (transfer_event fmt pid new_status actor nc lat lon) (snd st)))"
  by (simp add: commit_transfer_def Let_def split: prod.split)

lemma commit_transfer_store:
  "fst (snd (commit_transfer add_block fmt actor pid new_status nc lat lon p st)) =
     (fst st)\<lparr>products := update_first (\<lambda>r. product_id r = pid)
                   (\<lambda>_. p\<lparr>custodian := nc, current_status := new_status\<rparr>)
                   (products (fst st)),
              histories := histories (fst st) @
                 [\<lparr>h_product_id = pid, status = new_status, by_who = actor,
                   timestamp = None, latitude = lat, longitude = lon\<rparr>]\<rparr>"
  by (simp add: commit_transfer_def Let_def split: prod.split)

lemma commit_transfer_ledger:
  "snd (snd (commit_transfer add_block fmt actor pid new_status nc lat lon p st)) =
     snd (add_block (transfer_event fmt pid new_status actor nc lat lon) (snd st))"
  by (simp add: commit_transfer_def Let_def split: prod.split)

lemma ect_unchanged_or_updated:
  "snd (explicit_custody_transfer add_block fmt actor role pid_opt status_opt
          transfer_to lat lon st) = st
   \<or> (\<exists>p b. fst (explicit_custody_transfer add_block fmt actor role pid_opt status_opt
                   transfer_to lat lon st) = Updated p b)"
  unfolding explicit_custody_transfer_def Let_def
  by (simp add: commit_transfer_response split: option.split bool.split)

lemma ect_accepted:
  assumes acc: "fst (explicit_custody_transfer add_block fmt actor role pid_opt status_opt
                       transfer_to lat lon st) = Updated p' b"
  obtains pid new_status p nc where
    "pid_opt = Some pid" and "pid \<noteq> []" and
    "status_opt = Some new_status" and "new_status \<noteq> []" and
    "get_product_row (fst st) pid = Some p" and
    "custodian p = actor \<or> role = ''super_admin''" and
    "new_status \<in> set (role_allowed role)" and
    "py_le (status_index new_status) (status_index (current_status p)) = Some False" and
    "sequence_ok role new_status (current_status p)" and
    "case map_of NEXT_ROLE_MAP new_status of
       None \<Rightarrow> nc = actor
     | Some er \<Rightarrow> \<exists>t u. transfer_to = Some t \<and> t \<noteq> [] \<and> get_user_row (fst st) t = Some u
                     \<and> role_of u = er \<and> nc = username u" and
    "explicit_custody_transfer add_block fmt actor role pid_opt status_opt
       transfer_to lat lon st
     = commit_transfer add_block fmt actor pid new_status nc lat lon p st"
proof -
  let ?R = "\<lambda>po so. explicit_custody_transfer add_block fmt actor role po so
                       transfer_to lat lon st"
  have nf: "\<not> (falsy pid_opt \<or> falsy status_opt)"
  proof
    assume "falsy pid_opt \<or> falsy status_opt"
    from ect_missing_field [OF this, of add_block fmt actor role transfer_to lat lon st]
    show False using acc by simp
  qed
  then obtain pid new_status where
    po: "pid_opt = Some pid" "pid \<noteq> []" and so: "status_opt = Some new_status" "new_status \<noteq> []"
    by (cases pid_opt; cases status_opt) auto
  note base = po(2) so(2)
  have acc': "fst (?R (Some pid) (Some new_status)) = Updated p' b"
    using acc po so by simp
  have "get_product_row (fst st) pid \<noteq> None"
  proof
    assume "get_product_row (fst st) pid = None"
    from ect_not_found [OF base this, of add_block fmt actor role transfer_to lat lon]
    show False using acc' by simp
  qed
  then obtain p where gp: "get_product_row (fst st) pid = Some p"
    by auto
  have cu: "custodian p = actor \<or> role = ''super_admin''"
  proof (rule ccontr)
    assume "\<not> (custodian p = actor \<or> role = ''super_admin'')"
    then have "custodian p \<noteq> actor" and "role \<noteq> ''super_admin''"
      by simp_all
    from ect_wrong_custodian [OF base gp this, of add_block fmt transfer_to lat lon]
    show False using acc' by simp
  qed
  have ra: "new_status \<in> set (role_allowed role)"
  proof (rule ccontr)
    assume "new_status \<notin> set (role_allowed role)"
    from ect_role_denied [OF base gp cu this, of add_block fmt transfer_to lat lon]
    show False using acc' by simp
  qed
  have le: "py_le (status_index new_status) (status_index (current_status p)) = Some False"
  proof (cases "py_le (status_index new_status) (status_index (current_status p))")
    case None
    then show ?thesis
      using acc' ect_type_error [OF base gp cu ra, of add_block fmt transfer_to lat lon]
      by simp
  next
    case (Some v)
    show ?thesis
    proof (cases v)
      case True
      with Some have "py_le (status_index new_status) (status_index (current_status p))
                        = Some True"
        by simp
      from ect_invalid_transition [OF base gp cu ra this, of add_block fmt transfer_to lat lon]
      show ?thesis using acc' by simp
    next
      case False
      with Some show ?thesis by simp
    qed
  qed
  have sqo: "sequence_ok role new_status (current_status p)"
  proof (rule ccontr)
    assume "\<not> sequence_ok role new_status (current_status p)"
    then obtain required where
      "role = ''distributor''"
      "map_of DISTRIBUTOR_SEQUENCE_MAP new_status = Some required"
      "current_status p \<noteq> required"
      by (auto simp: sequence_ok_def split: option.splits)
    from ect_invalid_sequence [OF base gp cu ra le this, of add_block fmt transfer_to lat lon]
    show False using acc' by simp
  qed
  show ?thesis
  proof (cases "map_of NEXT_ROLE_MAP new_status")
    case None
    from ect_commit_plain [OF base gp cu ra le sqo None, of add_block fmt transfer_to lat lon]
    show ?thesis
      using that [of pid new_status p actor] po so gp cu ra le sqo None by simp
  next
    case (Some er)
    have nft: "\<not> falsy transfer_to"
    proof
      assume "falsy transfer_to"
      from ect_missing_target [OF base gp cu ra le sqo Some this, of add_block fmt lat lon]
      show False using acc' by simp
    qed
    then obtain t where tt: "transfer_to = Some t" "t \<noteq> []"
      by (cases transfer_to) auto
    have "get_user_row (fst st) t \<noteq> None"
    proof
      assume "get_user_row (fst st) t = None"
      from ect_recipient_not_found [OF base gp cu ra le sqo Some tt(2) this,
                                    of add_block fmt lat lon]
      show False using acc' tt by simp
    qed
    then obtain u where gu: "get_user_row (fst st) t = Some u"
      by auto
    have ro: "role_of u = er"
    proof (rule ccontr)
      assume "role_of u \<noteq> er"
      from ect_role_mismatch [OF base gp cu ra le sqo Some tt(2) gu this,
                              of add_block fmt lat lon]
      show False using acc' tt by simp
    qed
    from ect_commit_handoff [OF base gp cu ra le sqo Some tt(2) gu ro, of add_block fmt lat lon]
    show ?thesis
      using that [of pid new_status p "username u"] po so gp cu ra le sqo Some tt gu ro by simp
  qed
qed


section \<open>Rows after a write\<close>

lemma find_holds: "find P xs = Some x \<Longrightarrow> P x"
  by (induction xs) (auto split: if_splits)

lemma find_update_first_same:
  "find P xs = Some x \<Longrightarrow> P y \<Longrightarrow> find P (update_first P (\<lambda>_. y) xs) = Some y"
  by (induction xs) (auto split: if_splits)

lemma find_update_first_other:
  "P y \<Longrightarrow> (\<And>z. P z \<Longrightarrow> \<not> Q z) \<Longrightarrow>
   find Q (update_first P (\<lambda>_. y) xs) = find Q xs"
  by (induction xs) auto

lemma find_append_kept: "find P xs = Some x \<Longrightarrow> find P (xs @ ys) = Some x"
  by (induction xs) (auto split: if_splits)

lemma find_remove_first_other:
  "(\<And>z. P z \<Longrightarrow> \<not> Q z) \<Longrightarrow> find Q (remove_first P xs) = find Q xs"
  by (induction xs) auto

lemma get_user_row_username: "get_user_row d t = Some u \<Longrightarrow> username u = t"
  unfolding get_user_row_def by (drule find_holds) simp

lemma get_product_row_id: "get_product_row d pid = Some p \<Longrightarrow> product_id p = pid"
  unfolding get_product_row_def by (drule find_holds) simp

section \<open>Facts of the rule tables\<close>

lemma role_allowed_cases:
  "s \<in> set (role_allowed role) \<Longrightarrow>
     (role = ''manufacturer'' \<and> s \<in> {''Created'', ''ReadyForShipping''})
   \<or> (role = ''distributor'' \<and> s \<in> {''Shipped'', ''InTransit'', ''DeliveredToRetailer''})
   \<or> (role = ''retailer'' \<and> s \<in> {''AvailableForSale'', ''Sold''})"
  by (auto simp: role_allowed_def ROLE_ALLOWED_def split: if_splits)

lemma role_allowed_super_admin: "role_allowed ''super_admin'' = []"
  by (simp add: role_allowed_def ROLE_ALLOWED_def)

lemma role_allowed_not_admin: "s \<in> set (role_allowed role) \<Longrightarrow> role \<noteq> ''super_admin''"
  by (auto simp: role_allowed_super_admin)

lemma role_allowed_not_recalled: "''Recalled'' \<notin> set (role_allowed role)"
  by (auto dest: role_allowed_cases)

lemma py_le_Some:
  "py_le a b = Some v \<Longrightarrow> \<exists>i j. a = Some i \<and> b = Some j \<and> v = (i \<le> j)"
  by (cases a; cases b) auto

lemma next_role_cases:
  "map_of NEXT_ROLE_MAP s = Some r \<longleftrightarrow>
     (s = ''ReadyForShipping'' \<and> r = ''distributor'')
   \<or> (s = ''DeliveredToRetailer'' \<and> r = ''retailer'')"
  by (auto simp: NEXT_ROLE_MAP_def split: if_splits)

lemma distributor_sequence_cases:
  "map_of DISTRIBUTOR_SEQUENCE_MAP s = Some r \<longleftrightarrow>
     (s = ''InTransit'' \<and> r = ''Shipped'')
   \<or> (s = ''DeliveredToRetailer'' \<and> r = ''InTransit'')"
  by (auto simp: DISTRIBUTOR_SEQUENCE_MAP_def split: if_splits)

section \<open>The state after an accepted transfer\<close>

lemma ect_accepted_full:
  assumes R: "explicit_custody_transfer add_block fmt actor role pid_opt status_opt
                transfer_to lat lon (d, bc) = (Updated p' b, d', bc')"
  obtains pid new_status p nc where
    "pid_opt = Some pid" and "pid \<noteq> []" and
    "status_opt = Some new_status" and "new_status \<noteq> []" and
    "get_product_row d pid = Some p" and
    "custodian p = actor" and "role \<noteq> ''super_admin''" and
    "new_status \<in> set (role_allowed role)" and
    "py_le (status_index new_status) (status_index (current_status p)) = Some False" and
    "sequence_ok role new_status (current_status p)" and
    "case map_of NEXT_ROLE_MAP new_status of
       None \<Rightarrow> nc = actor
     | Some er \<Rightarrow> transfer_to = Some nc \<and> nc \<noteq> []
                  \<and> (\<exists>u. get_user_row d nc = Some u \<and> role_of u = er)" and
    "p' = p\<lparr>custodian := nc, current_status := new_status\<rparr>" and
    "get_product_row d' pid = Some p'" and
    "\<forall>q. q \<noteq> pid \<longrightarrow> get_product_row d' q = get_product_row d q" and
    "histories d' = histories d @
       [\<lparr>h_product_id = pid, status = new_status, by_who = actor,
         timestamp = None, latitude = lat, longitude = lon\<rparr>]" and
    "users d' = users d" and
    "b = fst (add_block (transfer_event fmt pid new_status actor nc lat lon) bc)" and
    "bc' = snd (add_block (transfer_event fmt pid new_status actor nc lat lon) bc)"
proof -
  from R have "fst (explicit_custody_transfer add_block fmt actor role pid_opt status_opt
                      transfer_to lat lon (d, bc)) = Updated p' b"
    by simp
  then obtain pid new_status p nc where
    f: "pid_opt = Some pid" "pid \<noteq> []" "status_opt = Some new_status" "new_status \<noteq> []"
       "get_product_row (fst (d, bc)) pid = Some p"
       "custodian p = actor \<or> role = ''super_admin''"
       "new_status \<in> set (role_allowed role)"
       "py_le (status_index new_status) (status_index (current_status p)) = Some False"
       "sequence_ok role new_status (current_status p)" and
    h: "case map_of NEXT_ROLE_MAP new_status of
          None \<Rightarrow> nc = actor
        | Some er \<Rightarrow> \<exists>t u. transfer_to = Some t \<and> t \<noteq> []
                       \<and> get_user_row (fst (d, bc)) t = Some u
                       \<and> role_of u = er \<and> nc = username u" and
    c: "explicit_custody_transfer add_block fmt actor role pid_opt status_opt
          transfer_to lat lon (d, bc)
        = commit_transfer add_block fmt actor pid new_status nc lat lon p (d, bc)"
    by (rule ect_accepted)
  from f(5) have gp: "get_product_row d pid = Some p" by simp
  from f(7) have na: "role \<noteq> ''super_admin''" by (rule role_allowed_not_admin)
  with f(6) have cu: "custodian p = actor" by simp
  have h': "case map_of NEXT_ROLE_MAP new_status of
              None \<Rightarrow> nc = actor
            | Some er \<Rightarrow> transfer_to = Some nc \<and> nc \<noteq> []
                         \<and> (\<exists>u. get_user_row d nc = Some u \<and> role_of u = er)"
    using h by (auto split: option.splits dest: get_user_row_username)
  let ?p = "p\<lparr>custodian := nc, current_status := new_status\<rparr>"
  let ?ev = "transfer_event fmt pid new_status actor nc lat lon"
  from R c have cm: "commit_transfer add_block fmt actor pid new_status nc lat lon p (d, bc)
                       = (Updated p' b, d', bc')"
    by simp
  have p': "p' = ?p" and b: "b = fst (add_block ?ev bc)"
    using commit_transfer_response [of add_block fmt actor pid new_status nc lat lon p "(d, bc)"]
          cm by simp_all
  have d': "d' = d\<lparr>products := update_first (\<lambda>r. product_id r = pid) (\<lambda>_. ?p) (products d),
                   histories := histories d @
                     [\<lparr>h_product_id = pid, status = new_status, by_who = actor,
                       timestamp = None, latitude = lat, longitude = lon\<rparr>]\<rparr>"
    using commit_transfer_store [of add_block fmt actor pid new_status nc lat lon p "(d, bc)"]
          cm by simp
  have bc': "bc' = snd (add_block ?ev bc)"
    using commit_transfer_ledger [of add_block fmt actor pid new_status nc lat lon p "(d, bc)"]
          cm by simp
  have idp: "product_id ?p = pid"
    using get_product_row_id [OF gp] by simp
  have row: "get_product_row d' pid = Some p'"
    using gp idp find_update_first_same [of "\<lambda>r. product_id r = pid" "products d" p ?p]
    by (simp add: d' p' get_product_row_def)
  have others: "get_product_row d' q = get_product_row d q" if "q \<noteq> pid" for q
    using that idp
          find_update_first_other [of "\<lambda>r. product_id r = pid" ?p "\<lambda>r. product_id r = q"
                                      "products d"]
    by (auto simp: d' get_product_row_def)
  show ?thesis
    using that [of pid new_status p nc] f(1-4) gp cu na f(7-9) h' p' row others d' b bc'
    by simp
qed

text \<open>The converse: a request that passes every test is committed.\<close>

lemma ect_commit:
  assumes "pid \<noteq> []" and "new_status \<noteq> []" and
    "get_product_row d pid = Some p" and
    "custodian p = actor \<or> role = ''super_admin''" and
    "new_status \<in> set (role_allowed role)" and
    "py_le (status_index new_status) (status_index (current_status p)) = Some False" and
    "sequence_ok role new_status (current_status p)" and
    h: "case map_of NEXT_ROLE_MAP new_status of
          None \<Rightarrow> nc = actor
        | Some er \<Rightarrow> transfer_to = Some nc \<and> nc \<noteq> []
                     \<and> (\<exists>u. get_user_row d nc = Some u \<and> role_of u = er)"
  shows "explicit_custody_transfer add_block fmt actor role (Some pid) (Some new_status)
           transfer_to lat lon (d, bc)
         = commit_transfer add_block fmt actor pid new_status nc lat lon p (d, bc)"
proof (cases "map_of NEXT_ROLE_MAP new_status")
  case None
  from assms(3) have g: "get_product_row (fst (d, bc)) pid = Some p" by simp
  from h None have "nc = actor" by simp
  with ect_commit_plain [OF assms(1,2) g assms(4-7) None, of add_block fmt transfer_to lat lon]
  show ?thesis by simp
next
  case (Some er)
  from assms(3) have g: "get_product_row (fst (d, bc)) pid = Some p" by simp
  from h Some obtain u where
    t: "transfer_to = Some nc" "nc \<noteq> []" and
    u: "get_user_row (fst (d, bc)) nc = Some u" "role_of u = er"
    by auto
  from u(1) have "username u = nc"
    by (simp add: get_user_row_username)
  with ect_commit_handoff [OF assms(1,2) g assms(4-7) Some t(2) u, of add_block fmt lat lon] t(1)
  show ?thesis by simp
qed

section \<open>Rows after creation and deletion\<close>

lemma create_product_rows:
  "get_product_row d q = Some row \<Longrightarrow>
   get_product_row (fst (snd (create_product add_block fmt pid now actor name_opt
                                description_opt lat lon (d, bc)))) q = Some row"
  by (auto simp: create_product_def get_product_row_def Let_def find_append_kept
           split: prod.split option.split)

lemma create_product_ledger:
  "snd (snd (create_product add_block fmt pid now actor name_opt description_opt
               lat lon (d, bc)))
   = (if falsy name_opt then bc
      else snd (add_block (create_event fmt pid actor lat lon) bc))"
  by (auto simp: create_product_def Let_def split: prod.split option.split)

lemma delete_product_rows:
  "q \<noteq> pid \<Longrightarrow>
   get_product_row (fst (snd (delete_product add_block actor pid (d, bc)))) q
     = get_product_row d q"
proof -
  assume "q \<noteq> pid"
  then have "find (\<lambda>r. product_id r = q)
               (remove_first (\<lambda>r. product_id r = pid) (products d))
             = find (\<lambda>r. product_id r = q) (products d)"
    by (intro find_remove_first_other) auto
  then show ?thesis
    by (auto simp: delete_product_def get_product_row_def Let_def
             split: prod.split option.split)
qed

section \<open>Closed evaluations on the sample data\<close>

lemmas sample_defs =
  sample_users_def sample_store_def recording_ledger_def failing_ledger_def
  get_product_row_def get_user_row_def

lemmas table_defs =
  STATUS_ORDER_def ROLE_ALLOWED_def NEXT_ROLE_MAP_def DISTRIBUTOR_SEQUENCE_MAP_def
  status_index_def role_allowed_def

text \<open>Scenario C of the spec: carol is a distributor, the product is with bob.\<close>

lemma scenario_C:
  "explicit_custody_transfer recording_ledger id ''carol'' ''distributor''
       (Some ''P1'') (Some ''InTransit'') None None None
       (sample_store ''bob'' ''ReadyForShipping'', [])
   = (ErrorJson (''Action failed: You are not the current custodian (''
                 @ sq @ ''bob'' @ sq @ '')'') 403,
      sample_store ''bob'' ''ReadyForShipping'', [])"
  by (simp add: explicit_custody_transfer_def sample_defs)


text \<open>Scenario B of the spec: alice hands the product she created to bob.\<close>

lemma scenario_B:
  "explicit_custody_transfer recording_ledger id ''alice'' ''manufacturer''
       (Some ''P1'') (Some ''ReadyForShipping'') (Some ''bob'') None None
       (sample_store ''alice'' ''Created'', [])
   = (Updated \<lparr>product_id = ''P1'', name = ''Widget'', owner = ''alice'',
               custodian = ''bob'', current_status = ''ReadyForShipping'',
               description = []\<rparr> (Some 0),
      \<lparr>products = [\<lparr>product_id = ''P1'', name = ''Widget'', owner = ''alice'',
                     custodian = ''bob'', current_status = ''ReadyForShipping'',
                     description = []\<rparr>],
        histories = [\<lparr>h_product_id = ''P1'', status = ''ReadyForShipping'',
                      by_who = ''alice'', timestamp = None, latitude = None,
                      longitude = None\<rparr>],
        users = sample_users\<rparr>,
      [transfer_event id ''P1'' ''ReadyForShipping'' ''alice'' ''bob'' None None])"
  by (simp add: explicit_custody_transfer_def commit_transfer_def sample_store_def
        recording_ledger_def get_product_row_def get_user_row_def sample_users_def
        table_defs Let_def)

section \<open>The claims\<close>

text \<open>
  C1, as stated: every request whose requested status is not later in the order than
  the current one is answered with the "Invalid transition" error. It is not: the
  custodian and role tests run first. Here bob, a distributor holding \<^verbatim>\<open>P1\<close> at
  \<^verbatim>\<open>Shipped\<close> (index 2), asks for \<^verbatim>\<open>Created\<close> (index 0) and is told that his role
  cannot set that status.
\<close>

theorem backward_request_gets_role_error:
  "status_index ''Created'' = Some 0 \<and> status_index ''Shipped'' = Some 2
   \<and> fst (explicit_custody_transfer recording_ledger id ''bob'' ''distributor''
            (Some ''P1'') (Some ''Created'') None None None
            (sample_store ''bob'' ''Shipped'', []))
       = ErrorJson (''Your role '' @ sq @ ''distributor'' @ sq @ '' cannot set status ''
                    @ sq @ ''Created'' @ sq) 403
   \<and> fst (explicit_custody_transfer recording_ledger id ''bob'' ''distributor''
            (Some ''P1'') (Some ''Created'') None None None
            (sample_store ''bob'' ''Shipped'', []))
       \<noteq> ErrorJson (''Invalid transition from '' @ sq @ ''Shipped'' @ sq @ '' to ''
                    @ sq @ ''Created'' @ sq) 403"
  by (simp add: explicit_custody_transfer_def sample_defs table_defs)

text \<open>
  C1, amended. For a request that names an existing product:
  \<^item> if it is accepted, both statuses have an index and the index of the new status is
    strictly greater than the index of the status the product had; the product then
    carries the new status;
  \<^item> if the index of the requested status is less than or equal to the index of the
    current one, the request is not accepted and store and ledger stay as they were;
    the answer is the "Invalid transition" error whenever the request gets as far as
    that test (the product id is not empty, the actor is the custodian or a
    super_admin, and the role may set the status), and the error of the earlier test
    otherwise;
  \<^item> so whatever the answer, the index of the product's status afterwards is at least
    the index before.
\<close>

theorem transfer_status_monotone:
  assumes R: "explicit_custody_transfer add_block fmt actor role (Some pid) (Some new_status)
                transfer_to lat lon (d, bc) = (r, d', bc')"
      and gp: "get_product_row d pid = Some p"
  shows "((\<exists>p' b. r = Updated p' b) \<longrightarrow>
            (\<exists>i j. status_index (current_status p) = Some i
                  \<and> status_index new_status = Some j \<and> i < j
                  \<and> (\<exists>p'. get_product_row d' pid = Some p'
                           \<and> current_status p' = new_status)))
       \<and> ((\<exists>i j. status_index (current_status p) = Some i
                 \<and> status_index new_status = Some j \<and> j \<le> i) \<longrightarrow>
            (\<forall>p' b. r \<noteq> Updated p' b) \<and> d' = d \<and> bc' = bc
            \<and> (pid \<noteq> [] \<and> (custodian p = actor \<or> role = ''super_admin'')
                 \<and> new_status \<in> set (role_allowed role) \<longrightarrow>
               r = ErrorJson (''Invalid transition from '' @ sq @ current_status p @ sq
                              @ '' to '' @ sq @ new_status @ sq) 403))
       \<and> (\<forall>i. status_index (current_status p) = Some i \<longrightarrow>
            (\<exists>p' j. get_product_row d' pid = Some p'
                   \<and> status_index (current_status p') = Some j \<and> i \<le> j))"
proof -
  have acc: "\<exists>i j. status_index (current_status p) = Some i
                  \<and> status_index new_status = Some j \<and> i < j
                  \<and> get_product_row d' pid = Some p' \<and> current_status p' = new_status"
    if "r = Updated p' b" for p' b
  proof -
    from R that have "explicit_custody_transfer add_block fmt actor role (Some pid)
        (Some new_status) transfer_to lat lon (d, bc) = (Updated p' b, d', bc')"
      by simp
    then obtain pid0 ns0 p0 nc where
      f: "Some pid = Some pid0" "Some new_status = Some ns0"
         "get_product_row d pid0 = Some p0"
         "py_le (status_index ns0) (status_index (current_status p0)) = Some False"
         "p' = p0\<lparr>custodian := nc, current_status := ns0\<rparr>"
         "get_product_row d' pid0 = Some p'"
      by (rule ect_accepted_full)
    from f(1,2,3) gp have e: "pid0 = pid" "ns0 = new_status" "p0 = p" by simp_all
    from py_le_Some [OF f(4)] obtain i j where
      "status_index ns0 = Some i" "status_index (current_status p0) = Some j" "\<not> i \<le> j"
      by auto
    with f(5,6) e show ?thesis by auto
  qed
  have unchanged: "d' = d \<and> bc' = bc" if "\<forall>p' b. r \<noteq> Updated p' b"
    using that R ect_unchanged_or_updated [of add_block fmt actor role "Some pid"
        "Some new_status" transfer_to lat lon "(d, bc)"]
    by auto
  have bwd: "(\<forall>p' b. r \<noteq> Updated p' b) \<and> d' = d \<and> bc' = bc
            \<and> (pid \<noteq> [] \<and> (custodian p = actor \<or> role = ''super_admin'')
                 \<and> new_status \<in> set (role_allowed role) \<longrightarrow>
               r = ErrorJson (''Invalid transition from '' @ sq @ current_status p @ sq
                              @ '' to '' @ sq @ new_status @ sq) 403)"
    if ij: "status_index (current_status p) = Some i" "status_index new_status = Some j"
           "j \<le> i" for i j
  proof -
    have no: "\<forall>p' b. r \<noteq> Updated p' b"
      using acc ij by fastforce
    have ne: "new_status \<noteq> []"
      using ij(2) by (auto simp: table_defs)
    have le: "py_le (status_index new_status) (status_index (current_status p)) = Some True"
      using ij by simp
    have "r = ErrorJson (''Invalid transition from '' @ sq @ current_status p @ sq
                         @ '' to '' @ sq @ new_status @ sq) 403"
      if "pid \<noteq> []" "custodian p = actor \<or> role = ''super_admin''"
         "new_status \<in> set (role_allowed role)"
      using ect_invalid_transition [OF that(1) ne _ that(2,3) le,
              of "(d, bc)" add_block fmt transfer_to lat lon] gp R
      by simp
    with no unchanged show ?thesis by blast
  qed
  have life: "\<exists>p' j. get_product_row d' pid = Some p'
                    \<and> status_index (current_status p') = Some j \<and> i \<le> j"
    if i: "status_index (current_status p) = Some i" for i
  proof (cases "\<exists>p' b. r = Updated p' b")
    case True
    then obtain p' b where "r = Updated p' b" by blast
    from acc [OF this] i show ?thesis by auto
  next
    case False
    with unchanged have "d' = d" by simp
    with gp i show ?thesis by auto
  qed
  from acc bwd life show ?thesis by blast
qed

theorem transfer_status_monotone_witness:
  "explicit_custody_transfer recording_ledger id ''bob'' ''distributor''
       (Some ''P1'') (Some ''Shipped'') None None None
       (sample_store ''bob'' ''Shipped'', [])
     = (ErrorJson (''Invalid transition from '' @ sq @ ''Shipped'' @ sq @ '' to ''
                   @ sq @ ''Shipped'' @ sq) 403,
        sample_store ''bob'' ''Shipped'', [])
   \<and> get_product_row (sample_store ''bob'' ''Shipped'') ''P1''
       = Some \<lparr>product_id = ''P1'', name = ''Widget'', owner = ''alice'',
               custodian = ''bob'', current_status = ''Shipped'', description = []\<rparr>
   \<and> status_index ''Shipped'' = Some 2
   \<and> ''Shipped'' \<in> set (role_allowed ''distributor'')"
proof -
  let ?p = "\<lparr>product_id = ''P1'', name = ''Widget'', owner = ''alice'',
             custodian = ''bob'', current_status = ''Shipped'', description = []\<rparr>"
  obtain r d' bc' where
    R: "explicit_custody_transfer recording_ledger id ''bob'' ''distributor''
          (Some ''P1'') (Some ''Shipped'') None None None
          (sample_store ''bob'' ''Shipped'', []) = (r, d', bc')"
    by (metis prod_cases3)
  have gp: "get_product_row (sample_store ''bob'' ''Shipped'') ''P1'' = Some ?p"
    by (simp add: sample_defs)
  have ix: "status_index ''Shipped'' = Some 2"
    by (simp add: table_defs)
  have al: "''Shipped'' \<in> set (role_allowed ''distributor'')"
    by (simp add: table_defs)
  from transfer_status_monotone [OF R gp] ix al
  have "r = ErrorJson (''Invalid transition from '' @ sq @ ''Shipped'' @ sq @ '' to ''
                       @ sq @ ''Shipped'' @ sq) 403
        \<and> d' = sample_store ''bob'' ''Shipped'' \<and> bc' = []"
    by simp
  with R gp ix al show ?thesis by simp
qed

text \<open>
  C2. Every transfer request that is not accepted, whichever test turned it down (a
  missing field, an unknown product, the wrong custodian, a role that may not set the
  status, a status that is not later, a distributor out of sequence, a missing, unknown
  or wrongly typed transfer target, and also the comparison that raises), returns the
  store and the ledger exactly as it received them: the products with their status and
  custodian, the History rows and the chain are unchanged.
\<close>

theorem rejected_transfer_changes_nothing:
  "(\<forall>p b. fst (explicit_custody_transfer add_block fmt actor role pid_opt status_opt
                  transfer_to lat lon (d, bc)) \<noteq> Updated p b)
   \<Longrightarrow> snd (explicit_custody_transfer add_block fmt actor role pid_opt status_opt
              transfer_to lat lon (d, bc)) = (d, bc)"
  using ect_unchanged_or_updated [of add_block fmt actor role pid_opt status_opt
                                    transfer_to lat lon "(d, bc)"]
  by auto

theorem rejected_transfer_changes_nothing_witness:
  "(\<forall>p b. fst (explicit_custody_transfer recording_ledger id ''carol'' ''distributor''
                  (Some ''P1'') (Some ''InTransit'') None None None
                  (sample_store ''bob'' ''ReadyForShipping'', [])) \<noteq> Updated p b)
   \<and> snd (explicit_custody_transfer recording_ledger id ''carol'' ''distributor''
             (Some ''P1'') (Some ''InTransit'') None None None
             (sample_store ''bob'' ''ReadyForShipping'', []))
       = (sample_store ''bob'' ''ReadyForShipping'', [])"
proof -
  have h: "\<forall>p b. fst (explicit_custody_transfer recording_ledger id ''carol''
                  ''distributor'' (Some ''P1'') (Some ''InTransit'') None None None
                  (sample_store ''bob'' ''ReadyForShipping'', [])) \<noteq> Updated p b"
    by (simp add: scenario_C)
  from rejected_transfer_changes_nothing [OF h] h show ?thesis
    by simp
qed

text \<open>
  C3, as stated: every request on an existing product by somebody who is neither its
  custodian nor a super_admin is answered with the Forbidden error that names the
  custodian. It is not when the status field is missing or empty: the test of the
  required fields comes first and answers 400. Here carol asks about \<^verbatim>\<open>P1\<close>, which is
  with bob.
\<close>

theorem stranger_without_status_gets_400:
  "get_product_row (sample_store ''bob'' ''ReadyForShipping'') ''P1''
     = Some \<lparr>product_id = ''P1'', name = ''Widget'', owner = ''alice'',
             custodian = ''bob'', current_status = ''ReadyForShipping'',
             description = []\<rparr>
   \<and> ''bob'' \<noteq> ''carol'' \<and> ''distributor'' \<noteq> ''super_admin''
   \<and> fst (explicit_custody_transfer recording_ledger id ''carol'' ''distributor''
            (Some ''P1'') None None None None
            (sample_store ''bob'' ''ReadyForShipping'', []))
       = ErrorJson ''product_id and status are required'' 400
   \<and> fst (explicit_custody_transfer recording_ledger id ''carol'' ''distributor''
            (Some ''P1'') (Some []) None None None
            (sample_store ''bob'' ''ReadyForShipping'', []))
       = ErrorJson ''product_id and status are required'' 400
   \<and> fst (explicit_custody_transfer recording_ledger id ''carol'' ''distributor''
            (Some ''P1'') None None None None
            (sample_store ''bob'' ''ReadyForShipping'', []))
       \<noteq> ErrorJson (''Action failed: You are not the current custodian (''
                    @ sq @ ''bob'' @ sq @ '')'') 403"
  by (simp add: explicit_custody_transfer_def sample_defs)

text \<open>
  C3, amended. A request that carries a product id and a status, both not empty, and
  names an existing product, made by an actor who is not the custodian of the product
  and whose role is not super_admin, is answered with the 403 error that names the
  current custodian, whatever the status, the role and the state of the product are;
  store and ledger stay as they were.
\<close>

theorem stranger_is_forbidden:
  "pid \<noteq> [] \<Longrightarrow> new_status \<noteq> [] \<Longrightarrow> get_product_row d pid = Some p \<Longrightarrow>
   custodian p \<noteq> actor \<Longrightarrow> role \<noteq> ''super_admin'' \<Longrightarrow>
   explicit_custody_transfer add_block fmt actor role (Some pid) (Some new_status)
       transfer_to lat lon (d, bc)
     = (ErrorJson (''Action failed: You are not the current custodian (''
                   @ sq @ custodian p @ sq @ '')'') 403, d, bc)"
  using ect_wrong_custodian [of pid new_status "(d, bc)" p actor role add_block fmt
                               transfer_to lat lon]
  by simp

theorem stranger_is_forbidden_witness:
  "''P1'' \<noteq> [] \<and> ''Sold'' \<noteq> []
   \<and> get_product_row (sample_store ''bob'' ''ReadyForShipping'') ''P1''
       = Some \<lparr>product_id = ''P1'', name = ''Widget'', owner = ''alice'',
               custodian = ''bob'', current_status = ''ReadyForShipping'',
               description = []\<rparr>
   \<and> ''bob'' \<noteq> ''carol'' \<and> ''distributor'' \<noteq> ''super_admin''
   \<and> explicit_custody_transfer recording_ledger id ''carol'' ''distributor''
        (Some ''P1'') (Some ''Sold'') None None None
        (sample_store ''bob'' ''ReadyForShipping'', [])
       = (ErrorJson (''Action failed: You are not the current custodian (''
                     @ sq @ ''bob'' @ sq @ '')'') 403,
          sample_store ''bob'' ''ReadyForShipping'', [])"
proof -
  let ?p = "\<lparr>product_id = ''P1'', name = ''Widget'', owner = ''alice'',
             custodian = ''bob'', current_status = ''ReadyForShipping'',
             description = []\<rparr>"
  have a: "''P1'' \<noteq> []" and b: "''Sold'' \<noteq> []" by simp_all
  have gp: "get_product_row (sample_store ''bob'' ''ReadyForShipping'') ''P1'' = Some ?p"
    by (simp add: sample_defs)
  have c: "custodian ?p \<noteq> ''carol''" and e: "''distributor'' \<noteq> ''super_admin''"
    by simp_all
  from stranger_is_forbidden [OF a b gp c e, of recording_ledger id None None None "[]"]
       gp
  show ?thesis by simp
qed

text \<open>
  C4, as stated: every request for a handoff status that comes without a transfer
  target is answered with the missing-target error. It is not when an earlier test
  turns the request down. Here bob, who holds \<^verbatim>\<open>P1\<close> at \<^verbatim>\<open>Shipped\<close>, asks for
  \<^verbatim>\<open>DeliveredToRetailer\<close> and names nobody: the answer is the sequence error.
\<close>

theorem handoff_without_target_gets_sequence_error:
  "map_of NEXT_ROLE_MAP ''DeliveredToRetailer'' = Some ''retailer''
   \<and> fst (explicit_custody_transfer recording_ledger id ''bob'' ''distributor''
            (Some ''P1'') (Some ''DeliveredToRetailer'') None None None
            (sample_store ''bob'' ''Shipped'', []))
       = ErrorJson (''Invalid sequence: To set status to '' @ sq @ ''DeliveredToRetailer''
                    @ sq @ '', product must first be in '' @ sq @ ''InTransit'' @ sq
                    @ '' status.'') 403
   \<and> fst (explicit_custody_transfer recording_ledger id ''bob'' ''distributor''
            (Some ''P1'') (Some ''DeliveredToRetailer'') None None None
            (sample_store ''bob'' ''Shipped'', []))
       \<noteq> ErrorJson (sq @ ''transfer_to_username'' @ sq @ '' is required for status ''
                    @ sq @ ''DeliveredToRetailer'' @ sq) 400"
  by (simp add: explicit_custody_transfer_def sample_defs table_defs sq_def)

text \<open>
  C4, amended. The handoff statuses are \<^verbatim>\<open>ReadyForShipping\<close>, whose target must be a
  distributor, and \<^verbatim>\<open>DeliveredToRetailer\<close>, whose target must be a retailer. A request
  for one of them whose target is missing or empty, names no user, or names a user of
  another role is never accepted, and store and ledger stay as they were. When such
  a request has passed the earlier tests (product id not empty, product found, actor
  custodian or super_admin, role allowed to set the status, status strictly later,
  distributor sequence respected), the answer is: the 400 error that asks for
  \<^verbatim>\<open>transfer_to_username\<close> when the target is missing or empty; the 404 error when no
  user has that name; the 400 error that names the expected role when the user has
  another role.
\<close>

theorem handoff_target_checked:
  assumes nr: "map_of NEXT_ROLE_MAP new_status = Some expected_role"
  shows "(new_status = ''ReadyForShipping'' \<and> expected_role = ''distributor''
          \<or> new_status = ''DeliveredToRetailer'' \<and> expected_role = ''retailer'')
       \<and> (falsy transfer_to
            \<or> (\<exists>t. transfer_to = Some t
                   \<and> (get_user_row d t = None
                       \<or> (\<exists>u. get_user_row d t = Some u \<and> role_of u \<noteq> expected_role)))
          \<longrightarrow> (\<forall>p' b. fst (explicit_custody_transfer add_block fmt actor role pid_opt
                              (Some new_status) transfer_to lat lon (d, bc))
                        \<noteq> Updated p' b)
              \<and> snd (explicit_custody_transfer add_block fmt actor role pid_opt
                        (Some new_status) transfer_to lat lon (d, bc)) = (d, bc))
       \<and> (pid \<noteq> [] \<and> get_product_row d pid = Some p
            \<and> (custodian p = actor \<or> role = ''super_admin'')
            \<and> new_status \<in> set (role_allowed role)
            \<and> py_le (status_index new_status) (status_index (current_status p)) = Some False
            \<and> sequence_ok role new_status (current_status p)
          \<longrightarrow> (falsy transfer_to \<longrightarrow>
                 explicit_custody_transfer add_block fmt actor role (Some pid)
                     (Some new_status) transfer_to lat lon (d, bc)
                   = (ErrorJson (sq @ ''transfer_to_username'' @ sq
                                 @ '' is required for status '' @ sq @ new_status @ sq) 400,
                      d, bc))
              \<and> (\<forall>t. transfer_to = Some t \<and> t \<noteq> [] \<and> get_user_row d t = None \<longrightarrow>
                 explicit_custody_transfer add_block fmt actor role (Some pid)
                     (Some new_status) transfer_to lat lon (d, bc)
                   = (ErrorJson (''Recipient '' @ sq @ t @ sq @ '' not found'') 404, d, bc))
              \<and> (\<forall>t u. transfer_to = Some t \<and> t \<noteq> [] \<and> get_user_row d t = Some u
                        \<and> role_of u \<noteq> expected_role \<longrightarrow>
                 explicit_custody_transfer add_block fmt actor role (Some pid)
                     (Some new_status) transfer_to lat lon (d, bc)
                   = (ErrorJson (''Can only transfer to '' @ sq @ expected_role @ sq
                                 @ '', but '' @ sq @ username u @ sq @ '' is a '' @ sq
                                 @ role_of u @ sq) 400, d, bc)))"
proof -
  let ?R = "\<lambda>po. explicit_custody_transfer add_block fmt actor role po
                    (Some new_status) transfer_to lat lon (d, bc)"
  have tbl: "new_status = ''ReadyForShipping'' \<and> expected_role = ''distributor''
             \<or> new_status = ''DeliveredToRetailer'' \<and> expected_role = ''retailer''"
    using nr by (simp add: next_role_cases)
  then have ne: "new_status \<noteq> []" by auto
  have never: "(\<forall>p' b. fst (?R pid_opt) \<noteq> Updated p' b) \<and> snd (?R pid_opt) = (d, bc)"
    if bad: "falsy transfer_to
             \<or> (\<exists>t. transfer_to = Some t
                    \<and> (get_user_row d t = None
                        \<or> (\<exists>u. get_user_row d t = Some u \<and> role_of u \<noteq> expected_role)))"
  proof -
    have no: "fst (?R pid_opt) \<noteq> Updated p' b" for p' b
    proof
      assume "fst (?R pid_opt) = Updated p' b"
      then have "?R pid_opt = (Updated p' b, fst (snd (?R pid_opt)), snd (snd (?R pid_opt)))"
        by (metis prod.collapse)
      then obtain ns0 nc where
        "Some new_status = Some ns0" and
        "case map_of NEXT_ROLE_MAP ns0 of
           None \<Rightarrow> nc = actor
         | Some er \<Rightarrow> transfer_to = Some nc \<and> nc \<noteq> []
                      \<and> (\<exists>u. get_user_row d nc = Some u \<and> role_of u = er)"
        by (rule ect_accepted_full)
      with nr have "transfer_to = Some nc \<and> nc \<noteq> []
                    \<and> (\<exists>u. get_user_row d nc = Some u \<and> role_of u = expected_role)"
        by simp
      with bad show False by auto
    qed
    with ect_unchanged_or_updated [of add_block fmt actor role pid_opt "Some new_status"
                                      transfer_to lat lon "(d, bc)"]
    show ?thesis by auto
  qed
  have exact:
    "(falsy transfer_to \<longrightarrow>
        ?R (Some pid) = (ErrorJson (sq @ ''transfer_to_username'' @ sq
                          @ '' is required for status '' @ sq @ new_status @ sq) 400, d, bc))
     \<and> (\<forall>t. transfer_to = Some t \<and> t \<noteq> [] \<and> get_user_row d t = None \<longrightarrow>
        ?R (Some pid) = (ErrorJson (''Recipient '' @ sq @ t @ sq @ '' not found'') 404, d, bc))
     \<and> (\<forall>t u. transfer_to = Some t \<and> t \<noteq> [] \<and> get_user_row d t = Some u
               \<and> role_of u \<noteq> expected_role \<longrightarrow>
        ?R (Some pid) = (ErrorJson (''Can only transfer to '' @ sq @ expected_role @ sq
                          @ '', but '' @ sq @ username u @ sq @ '' is a '' @ sq
                          @ role_of u @ sq) 400, d, bc))"
    if pre: "pid \<noteq> []" "get_product_row d pid = Some p"
            "custodian p = actor \<or> role = ''super_admin''"
            "new_status \<in> set (role_allowed role)"
            "py_le (status_index new_status) (status_index (current_status p)) = Some False"
            "sequence_ok role new_status (current_status p)"
  proof -
    from pre(2) have gp: "get_product_row (fst (d, bc)) pid = Some p" by simp
    note stage = pre(1) ne gp pre(3-6) nr
    have m: "?R (Some pid) = (ErrorJson (sq @ ''transfer_to_username'' @ sq
               @ '' is required for status '' @ sq @ new_status @ sq) 400, d, bc)"
      if "falsy transfer_to"
      using ect_missing_target [OF stage that, of add_block fmt lat lon] by simp
    have n: "?R (Some pid)
               = (ErrorJson (''Recipient '' @ sq @ t @ sq @ '' not found'') 404, d, bc)"
      if "transfer_to = Some t" "t \<noteq> []" "get_user_row d t = None" for t
      using ect_recipient_not_found [OF stage that(2), of add_block fmt lat lon] that(1,3)
      by simp
    have w: "?R (Some pid)
               = (ErrorJson (''Can only transfer to '' @ sq @ expected_role @ sq
                    @ '', but '' @ sq @ username u @ sq @ '' is a '' @ sq
                    @ role_of u @ sq) 400, d, bc)"
      if "transfer_to = Some t" "t \<noteq> []" "get_user_row d t = Some u"
         "role_of u \<noteq> expected_role" for t u
      using ect_role_mismatch [OF stage that(2), of u add_block fmt lat lon] that(1,3,4)
      by simp
    from m n w show ?thesis by blast
  qed
  from tbl never exact show ?thesis by blast
qed

theorem handoff_target_checked_witness:
  "map_of NEXT_ROLE_MAP ''ReadyForShipping'' = Some ''distributor''
   \<and> get_product_row (sample_store ''alice'' ''Created'') ''P1''
       = Some \<lparr>product_id = ''P1'', name = ''Widget'', owner = ''alice'',
               custodian = ''alice'', current_status = ''Created'', description = []\<rparr>
   \<and> ''ReadyForShipping'' \<in> set (role_allowed ''manufacturer'')
   \<and> py_le (status_index ''ReadyForShipping'') (status_index ''Created'') = Some False
   \<and> sequence_ok ''manufacturer'' ''ReadyForShipping'' ''Created''
   \<and> get_user_row (sample_store ''alice'' ''Created'') ''dan''
       = Some \<lparr>username = ''dan'', role_of = ''retailer''\<rparr>
   \<and> explicit_custody_transfer recording_ledger id ''alice'' ''manufacturer''
        (Some ''P1'') (Some ''ReadyForShipping'') (Some ''dan'') None None
        (sample_store ''alice'' ''Created'', [])
       = (ErrorJson (''Can only transfer to '' @ sq @ ''distributor'' @ sq @ '', but ''
                     @ sq @ ''dan'' @ sq @ '' is a '' @ sq @ ''retailer'' @ sq) 400,
          sample_store ''alice'' ''Created'', [])
   \<and> (\<forall>p' b. fst (explicit_custody_transfer recording_ledger id ''alice''
                   ''manufacturer'' (Some ''P1'') (Some ''ReadyForShipping'')
                   (Some ''dan'') None None (sample_store ''alice'' ''Created'', []))
               \<noteq> Updated p' b)"
proof -
  let ?p = "\<lparr>product_id = ''P1'', name = ''Widget'', owner = ''alice'',
             custodian = ''alice'', current_status = ''Created'', description = []\<rparr>"
  let ?u = "\<lparr>username = ''dan'', role_of = ''retailer''\<rparr>"
  have nr: "map_of NEXT_ROLE_MAP ''ReadyForShipping'' = Some ''distributor''"
    by (simp add: table_defs)
  have gp: "get_product_row (sample_store ''alice'' ''Created'') ''P1'' = Some ?p"
    by (simp add: sample_defs)
  have al: "''ReadyForShipping'' \<in> set (role_allowed ''manufacturer'')"
    by (simp add: table_defs)
  have le: "py_le (status_index ''ReadyForShipping'') (status_index ''Created'')
              = Some False"
    by (simp add: table_defs)
  have so: "sequence_ok ''manufacturer'' ''ReadyForShipping'' ''Created''"
    by (simp add: sequence_ok_def)
  have gu: "get_user_row (sample_store ''alice'' ''Created'') ''dan'' = Some ?u"
    by (simp add: sample_defs)
  from handoff_target_checked [OF nr, where transfer_to = "Some ''dan''"
         and d = "sample_store ''alice'' ''Created''" and bc = "[]"
         and pid = "''P1''" and pid_opt = "Some ''P1''" and p = ?p
         and actor = "''alice''" and role = "''manufacturer''"
         and add_block = recording_ledger and fmt = id and lat = None and lon = None]
       gp al le so gu
  show ?thesis
    using nr by simp
qed

text \<open>
  C5, as stated: a distributor's request for \<^verbatim>\<open>InTransit\<close> or \<^verbatim>\<open>DeliveredToRetailer\<close>
  on a product that is not at the required predecessor is answered with the sequence
  error. It is not when the requested status is not later than the current one: that
  test comes first. Here bob holds \<^verbatim>\<open>P1\<close> at \<^verbatim>\<open>InTransit\<close> and asks for \<^verbatim>\<open>InTransit\<close>
  again, whose predecessor is \<^verbatim>\<open>Shipped\<close>.
\<close>

theorem repeated_in_transit_gets_transition_error:
  "map_of DISTRIBUTOR_SEQUENCE_MAP ''InTransit'' = Some ''Shipped''
   \<and> ''InTransit'' \<noteq> ''Shipped''
   \<and> fst (explicit_custody_transfer recording_ledger id ''bob'' ''distributor''
            (Some ''P1'') (Some ''InTransit'') None None None
            (sample_store ''bob'' ''InTransit'', []))
       = ErrorJson (''Invalid transition from '' @ sq @ ''InTransit'' @ sq @ '' to ''
                    @ sq @ ''InTransit'' @ sq) 403
   \<and> fst (explicit_custody_transfer recording_ledger id ''bob'' ''distributor''
            (Some ''P1'') (Some ''InTransit'') None None None
            (sample_store ''bob'' ''InTransit'', []))
       \<noteq> ErrorJson (''Invalid sequence: To set status to '' @ sq @ ''InTransit''
                    @ sq @ '', product must first be in '' @ sq @ ''Shipped'' @ sq
                    @ '' status.'') 403"
  by (simp add: explicit_custody_transfer_def sample_defs table_defs)

text \<open>
  C5, amended. The statuses with a required predecessor are \<^verbatim>\<open>InTransit\<close> (after
  \<^verbatim>\<open>Shipped\<close>) and \<^verbatim>\<open>DeliveredToRetailer\<close> (after \<^verbatim>\<open>InTransit\<close>). A distributor's request
  for one of them on an existing product is accepted only if the product is exactly at
  the required predecessor; otherwise it is not accepted and store and ledger stay as
  they were. The answer is the "Invalid sequence" error whenever the request gets as
  far as that test, that is when the product id is not empty, the distributor is the
  custodian and the requested status is strictly later than the current one; when an
  earlier test fails, the answer is the error of that test.
\<close>

theorem distributor_sequence_enforced:
  assumes ds: "map_of DISTRIBUTOR_SEQUENCE_MAP new_status = Some required"
      and gp: "get_product_row d pid = Some p"
  shows "(new_status = ''InTransit'' \<and> required = ''Shipped''
          \<or> new_status = ''DeliveredToRetailer'' \<and> required = ''InTransit'')
       \<and> ((\<exists>p' b. fst (explicit_custody_transfer add_block fmt actor ''distributor''
                         (Some pid) (Some new_status) transfer_to lat lon (d, bc))
                    = Updated p' b)
          \<longrightarrow> current_status p = required)
       \<and> (current_status p \<noteq> required
          \<longrightarrow> (\<forall>p' b. fst (explicit_custody_transfer add_block fmt actor ''distributor''
                              (Some pid) (Some new_status) transfer_to lat lon (d, bc))
                        \<noteq> Updated p' b)
              \<and> snd (explicit_custody_transfer add_block fmt actor ''distributor''
                        (Some pid) (Some new_status) transfer_to lat lon (d, bc)) = (d, bc))
       \<and> (current_status p \<noteq> required \<and> pid \<noteq> [] \<and> custodian p = actor
            \<and> py_le (status_index new_status) (status_index (current_status p)) = Some False
          \<longrightarrow> explicit_custody_transfer add_block fmt actor ''distributor''
                  (Some pid) (Some new_status) transfer_to lat lon (d, bc)
                = (ErrorJson (''Invalid sequence: To set status to '' @ sq @ new_status
                              @ sq @ '', product must first be in '' @ sq @ required @ sq
                              @ '' status.'') 403, d, bc))"
proof -
  let ?R = "explicit_custody_transfer add_block fmt actor ''distributor''
              (Some pid) (Some new_status) transfer_to lat lon (d, bc)"
  have tbl: "new_status = ''InTransit'' \<and> required = ''Shipped''
             \<or> new_status = ''DeliveredToRetailer'' \<and> required = ''InTransit''"
    using ds by (simp add: distributor_sequence_cases)
  then have ne: "new_status \<noteq> []" by auto
  from tbl have al: "new_status \<in> set (role_allowed ''distributor'')"
    by (auto simp: table_defs)
  have acc: "current_status p = required" if "fst ?R = Updated p' b" for p' b
  proof -
    from that have "?R = (Updated p' b, fst (snd ?R), snd (snd ?R))"
      by (metis prod.collapse)
    then obtain pid0 ns0 p0 where
      "Some pid = Some pid0" "Some new_status = Some ns0"
      "get_product_row d pid0 = Some p0"
      "sequence_ok ''distributor'' ns0 (current_status p0)"
      by (rule ect_accepted_full)
    with gp ds show ?thesis by (simp add: sequence_ok_def)
  qed
  have rej: "(\<forall>p' b. fst ?R \<noteq> Updated p' b) \<and> snd ?R = (d, bc)"
    if "current_status p \<noteq> required"
    using that acc
          ect_unchanged_or_updated [of add_block fmt actor "''distributor''" "Some pid"
                                       "Some new_status" transfer_to lat lon "(d, bc)"]
    by auto
  have exact: "?R = (ErrorJson (''Invalid sequence: To set status to '' @ sq @ new_status
                       @ sq @ '', product must first be in '' @ sq @ required @ sq
                       @ '' status.'') 403, d, bc)"
    if "current_status p \<noteq> required" "pid \<noteq> []" "custodian p = actor"
       "py_le (status_index new_status) (status_index (current_status p)) = Some False"
  proof -
    from gp have g: "get_product_row (fst (d, bc)) pid = Some p" by simp
    from that(3) have c: "custodian p = actor \<or> ''distributor'' = ''super_admin''" by simp
    from ect_invalid_sequence [OF that(2) ne g c al that(4) refl ds that(1),
                               of add_block fmt transfer_to lat lon]
    show ?thesis by simp
  qed
  from tbl acc rej exact show ?thesis by blast
qed

theorem distributor_sequence_enforced_witness:
  "map_of DISTRIBUTOR_SEQUENCE_MAP ''InTransit'' = Some ''Shipped''
   \<and> get_product_row (sample_store ''bob'' ''ReadyForShipping'') ''P1''
       = Some \<lparr>product_id = ''P1'', name = ''Widget'', owner = ''alice'',
               custodian = ''bob'', current_status = ''ReadyForShipping'',
               description = []\<rparr>
   \<and> ''ReadyForShipping'' \<noteq> ''Shipped''
   \<and> py_le (status_index ''InTransit'') (status_index ''ReadyForShipping'') = Some False
   \<and> explicit_custody_transfer recording_ledger id ''bob'' ''distributor''
        (Some ''P1'') (Some ''InTransit'') None None None
        (sample_store ''bob'' ''ReadyForShipping'', [])
       = (ErrorJson (''Invalid sequence: To set status to '' @ sq @ ''InTransit''
                     @ sq @ '', product must first be in '' @ sq @ ''Shipped'' @ sq
                     @ '' status.'') 403,
          sample_store ''bob'' ''ReadyForShipping'', [])"
proof -
  let ?p = "\<lparr>product_id = ''P1'', name = ''Widget'', owner = ''alice'',
             custodian = ''bob'', current_status = ''ReadyForShipping'',
             description = []\<rparr>"
  have ds: "map_of DISTRIBUTOR_SEQUENCE_MAP ''InTransit'' = Some ''Shipped''"
    by (simp add: table_defs)
  have gp: "get_product_row (sample_store ''bob'' ''ReadyForShipping'') ''P1'' = Some ?p"
    by (simp add: sample_defs)
  have le: "py_le (status_index ''InTransit'') (status_index ''ReadyForShipping'')
              = Some False"
    by (simp add: table_defs)
  from distributor_sequence_enforced [OF ds gp, where actor = "''bob''" and bc = "[]"
         and add_block = recording_ledger and fmt = id and transfer_to = None
         and lat = None and lon = None] le
  have "explicit_custody_transfer recording_ledger id ''bob'' ''distributor''
          (Some ''P1'') (Some ''InTransit'') None None None
          (sample_store ''bob'' ''ReadyForShipping'', [])
        = (ErrorJson (''Invalid sequence: To set status to '' @ sq @ ''InTransit''
                      @ sq @ '', product must first be in '' @ sq @ ''Shipped'' @ sq
                      @ '' status.'') 403,
           sample_store ''bob'' ''ReadyForShipping'', [])"
    by simp
  with ds gp le show ?thesis by simp
qed

text \<open>
  C6. When a transfer request passes every test and the ledger append then raises,
  the exception does not leave the handler: the answer is still the 200 answer, its
  block field is null, and the commit made before the append stands: the product row
  carries the new status and the new custodian and the History row is there. The
  tests are spelled out as hypotheses; \<open>nc\<close> is the custodian that results, the
  transfer target for a handoff status and the actor otherwise.
\<close>

theorem ledger_failure_is_swallowed:
  assumes "pid \<noteq> []" and "new_status \<noteq> []"
      and "get_product_row d pid = Some p"
      and "custodian p = actor \<or> role = ''super_admin''"
      and "new_status \<in> set (role_allowed role)"
      and "py_le (status_index new_status) (status_index (current_status p)) = Some False"
      and "sequence_ok role new_status (current_status p)"
      and "case map_of NEXT_ROLE_MAP new_status of
             None \<Rightarrow> nc = actor
           | Some er \<Rightarrow> transfer_to = Some nc \<and> nc \<noteq> []
                        \<and> (\<exists>u. get_user_row d nc = Some u \<and> role_of u = er)"
      and raised: "fst (add_block (transfer_event fmt pid new_status actor nc lat lon) bc)
                     = None"
  shows "\<exists>d' bc'.
           explicit_custody_transfer add_block fmt actor role (Some pid) (Some new_status)
               transfer_to lat lon (d, bc)
             = (Updated (p\<lparr>custodian := nc, current_status := new_status\<rparr>) None, d', bc')
           \<and> get_product_row d' pid
               = Some (p\<lparr>custodian := nc, current_status := new_status\<rparr>)
           \<and> histories d' = histories d @
                [\<lparr>h_product_id = pid, status = new_status, by_who = actor,
                  timestamp = None, latitude = lat, longitude = lon\<rparr>]
           \<and> bc' = snd (add_block (transfer_event fmt pid new_status actor nc lat lon) bc)"
proof -
  let ?R = "explicit_custody_transfer add_block fmt actor role (Some pid) (Some new_status)
              transfer_to lat lon (d, bc)"
  let ?C = "commit_transfer add_block fmt actor pid new_status nc lat lon p (d, bc)"
  let ?p = "p\<lparr>custodian := nc, current_status := new_status\<rparr>"
  have c: "?R = ?C"
    using assms(1-8) by (rule ect_commit)
  have r: "fst ?C = Updated ?p None"
    using raised by (simp add: commit_transfer_response)
  have idp: "product_id ?p = pid"
    using get_product_row_id [OF assms(3)] by simp
  have row: "get_product_row (fst (snd ?C)) pid = Some ?p"
    using assms(3) idp
          find_update_first_same [of "\<lambda>r. product_id r = pid" "products d" p ?p]
    by (simp add: commit_transfer_store get_product_row_def)
  have hist: "histories (fst (snd ?C)) = histories d @
                [\<lparr>h_product_id = pid, status = new_status, by_who = actor,
                  timestamp = None, latitude = lat, longitude = lon\<rparr>]"
    by (simp add: commit_transfer_store)
  have ledger: "snd (snd ?C)
                  = snd (add_block (transfer_event fmt pid new_status actor nc lat lon) bc)"
    by (simp add: commit_transfer_ledger)
  have "?R = (Updated ?p None, fst (snd ?C), snd (snd ?C))"
    using c r by (metis prod.collapse)
  with row hist ledger show ?thesis by blast
qed

theorem ledger_failure_is_swallowed_witness:
  "get_product_row (sample_store ''alice'' ''Created'') ''P1''
     = Some \<lparr>product_id = ''P1'', name = ''Widget'', owner = ''alice'',
             custodian = ''alice'', current_status = ''Created'', description = []\<rparr>
   \<and> ''ReadyForShipping'' \<in> set (role_allowed ''manufacturer'')
   \<and> py_le (status_index ''ReadyForShipping'') (status_index ''Created'') = Some False
   \<and> sequence_ok ''manufacturer'' ''ReadyForShipping'' ''Created''
   \<and> map_of NEXT_ROLE_MAP ''ReadyForShipping'' = Some ''distributor''
   \<and> get_user_row (sample_store ''alice'' ''Created'') ''bob''
       = Some \<lparr>username = ''bob'', role_of = ''distributor''\<rparr>
   \<and> fst (failing_ledger
            (transfer_event id ''P1'' ''ReadyForShipping'' ''alice'' ''bob'' None None)
            ([] :: event list)) = (None :: nat option)
   \<and> fst (explicit_custody_transfer failing_ledger id ''alice'' ''manufacturer''
            (Some ''P1'') (Some ''ReadyForShipping'') (Some ''bob'') None None
            (sample_store ''alice'' ''Created'', []))
       = Updated \<lparr>product_id = ''P1'', name = ''Widget'', owner = ''alice'',
                  custodian = ''bob'', current_status = ''ReadyForShipping'',
                  description = []\<rparr> None"
proof -
  let ?p = "\<lparr>product_id = ''P1'', name = ''Widget'', owner = ''alice'',
             custodian = ''alice'', current_status = ''Created'', description = []\<rparr>"
  have a: "''P1'' \<noteq> []" and b: "''ReadyForShipping'' \<noteq> []" by simp_all
  have gp: "get_product_row (sample_store ''alice'' ''Created'') ''P1'' = Some ?p"
    by (simp add: sample_defs)
  have cu: "custodian ?p = ''alice'' \<or> ''manufacturer'' = ''super_admin''" by simp
  have al: "''ReadyForShipping'' \<in> set (role_allowed ''manufacturer'')"
    by (simp add: table_defs)
  have le: "py_le (status_index ''ReadyForShipping'') (status_index (current_status ?p))
              = Some False"
    by (simp add: table_defs)
  have so: "sequence_ok ''manufacturer'' ''ReadyForShipping'' (current_status ?p)"
    by (simp add: sequence_ok_def)
  have nr: "map_of NEXT_ROLE_MAP ''ReadyForShipping'' = Some ''distributor''"
    by (simp add: table_defs)
  have gu: "get_user_row (sample_store ''alice'' ''Created'') ''bob''
              = Some \<lparr>username = ''bob'', role_of = ''distributor''\<rparr>"
    by (simp add: sample_defs)
  have h: "case map_of NEXT_ROLE_MAP ''ReadyForShipping'' of
             None \<Rightarrow> ''bob'' = ''alice''
           | Some er \<Rightarrow> Some ''bob'' = Some ''bob'' \<and> ''bob'' \<noteq> []
                        \<and> (\<exists>u. get_user_row (sample_store ''alice'' ''Created'') ''bob''
                                  = Some u \<and> role_of u = er)"
    by (simp add: nr gu)
  have fl: "fst (failing_ledger
                   (transfer_event id ''P1'' ''ReadyForShipping'' ''alice'' ''bob'' None None)
                   ([] :: event list)) = (None :: nat option)"
    by (simp add: failing_ledger_def)
  from ledger_failure_is_swallowed [where pid = "''P1''" and new_status = "''ReadyForShipping''"
         and d = "sample_store ''alice'' ''Created''" and p = ?p and actor = "''alice''"
         and role = "''manufacturer''" and nc = "''bob''" and transfer_to = "Some ''bob''"
         and add_block = failing_ledger and fmt = id and lat = None and lon = None
         and bc = "[]", OF a b gp cu al le so h fl]
  have "fst (explicit_custody_transfer failing_ledger id ''alice'' ''manufacturer''
               (Some ''P1'') (Some ''ReadyForShipping'') (Some ''bob'') None None
               (sample_store ''alice'' ''Created'', []))
        = Updated (?p\<lparr>custodian := ''bob'', current_status := ''ReadyForShipping''\<rparr>) None"
    by auto
  with gp al le so nr gu fl show ?thesis by simp
qed

text \<open>
  C7. After an accepted transfer the custodian of the product is the transfer target
  when the requested status is a handoff status (\<^verbatim>\<open>ReadyForShipping\<close>,
  \<^verbatim>\<open>DeliveredToRetailer\<close>), and is who it was, namely the actor, when the status is not
  a handoff status. Nothing else changes a custodian: an accepted transfer leaves
  every other product alone, a transfer that is not accepted leaves the store as it
  was, creation leaves every row that a query found before as it was, and deletion
  leaves the rows of the other products as they were. The remaining handlers of the
  file do not write to the store.
\<close>

theorem custodian_changes_only_on_handoff:
  "(explicit_custody_transfer add_block fmt actor role pid_opt status_opt
        transfer_to lat lon (d, bc) = (Updated p' b, d', bc')
      \<longrightarrow> (\<exists>pid new_status p.
             pid_opt = Some pid \<and> status_opt = Some new_status
             \<and> get_product_row d pid = Some p \<and> custodian p = actor
             \<and> get_product_row d' pid = Some p'
             \<and> (map_of NEXT_ROLE_MAP new_status \<noteq> None
                   \<longrightarrow> transfer_to = Some (custodian p'))
             \<and> (map_of NEXT_ROLE_MAP new_status = None
                   \<longrightarrow> custodian p' = custodian p)
             \<and> (\<forall>q. q \<noteq> pid \<longrightarrow> get_product_row d' q = get_product_row d q)))
   \<and> ((\<forall>p' b. fst (explicit_custody_transfer add_block fmt actor role pid_opt status_opt
                      transfer_to lat lon (d, bc)) \<noteq> Updated p' b)
      \<longrightarrow> fst (snd (explicit_custody_transfer add_block fmt actor role pid_opt status_opt
                       transfer_to lat lon (d, bc))) = d)
   \<and> (\<forall>q row. get_product_row d q = Some row
      \<longrightarrow> get_product_row (fst (snd (create_product add_block fmt new_pid now actor
                                        name_opt description_opt lat lon (d, bc)))) q
            = Some row)
   \<and> (\<forall>q. q \<noteq> deleted_pid
      \<longrightarrow> get_product_row (fst (snd (delete_product add_block actor deleted_pid
                                        (d, bc)))) q
            = get_product_row d q)"
proof -
  have acc: "\<exists>pid new_status p.
             pid_opt = Some pid \<and> status_opt = Some new_status
             \<and> get_product_row d pid = Some p \<and> custodian p = actor
             \<and> get_product_row d' pid = Some p'
             \<and> (map_of NEXT_ROLE_MAP new_status \<noteq> None
                   \<longrightarrow> transfer_to = Some (custodian p'))
             \<and> (map_of NEXT_ROLE_MAP new_status = None
                   \<longrightarrow> custodian p' = custodian p)
             \<and> (\<forall>q. q \<noteq> pid \<longrightarrow> get_product_row d' q = get_product_row d q)"
    if "explicit_custody_transfer add_block fmt actor role pid_opt status_opt
          transfer_to lat lon (d, bc) = (Updated p' b, d', bc')"
  proof -
    from that obtain pid new_status p nc where
      f: "pid_opt = Some pid" "status_opt = Some new_status"
         "get_product_row d pid = Some p" "custodian p = actor" and
      h: "case map_of NEXT_ROLE_MAP new_status of
            None \<Rightarrow> nc = actor
          | Some er \<Rightarrow> transfer_to = Some nc \<and> nc \<noteq> []
                       \<and> (\<exists>u. get_user_row d nc = Some u \<and> role_of u = er)" and
      g: "p' = p\<lparr>custodian := nc, current_status := new_status\<rparr>"
         "get_product_row d' pid = Some p'" and
      o: "\<forall>q. q \<noteq> pid \<longrightarrow> get_product_row d' q = get_product_row d q"
      by (rule ect_accepted_full)
    have cp: "custodian p' = nc"
      using g(1) by simp
    have ho: "map_of NEXT_ROLE_MAP new_status \<noteq> None \<longrightarrow> transfer_to = Some (custodian p')"
    proof (cases "map_of NEXT_ROLE_MAP new_status")
      case None
      then show ?thesis by simp
    next
      case (Some er)
      with h have "transfer_to = Some nc" by simp
      with cp show ?thesis by simp
    qed
    have pl: "map_of NEXT_ROLE_MAP new_status = None \<longrightarrow> custodian p' = custodian p"
    proof
      assume "map_of NEXT_ROLE_MAP new_status = None"
      with h have "nc = actor" by simp
      with cp f(4) show "custodian p' = custodian p" by simp
    qed
    show ?thesis
      apply (rule exI [of _ pid])
      apply (rule exI [of _ new_status])
      apply (rule exI [of _ p])
      using f g(2) o ho pl apply (intro conjI)
             apply assumption+
      done
  qed
  have rej: "fst (snd (explicit_custody_transfer add_block fmt actor role pid_opt status_opt
                         transfer_to lat lon (d, bc))) = d"
    if "\<forall>p' b. fst (explicit_custody_transfer add_block fmt actor role pid_opt status_opt
                       transfer_to lat lon (d, bc)) \<noteq> Updated p' b"
    using that
          ect_unchanged_or_updated [of add_block fmt actor role pid_opt status_opt
                                       transfer_to lat lon "(d, bc)"]
    by auto
  have cre: "\<forall>q row. get_product_row d q = Some row
      \<longrightarrow> get_product_row (fst (snd (create_product add_block fmt new_pid now actor
                                        name_opt description_opt lat lon (d, bc)))) q
            = Some row"
    by (simp add: create_product_rows)
  have del: "\<forall>q. q \<noteq> deleted_pid
      \<longrightarrow> get_product_row (fst (snd (delete_product add_block actor deleted_pid
                                        (d, bc)))) q
            = get_product_row d q"
    by (simp add: delete_product_rows)
  from acc have acc': "explicit_custody_transfer add_block fmt actor role pid_opt status_opt
        transfer_to lat lon (d, bc) = (Updated p' b, d', bc')
      \<longrightarrow> (\<exists>pid new_status p.
             pid_opt = Some pid \<and> status_opt = Some new_status
             \<and> get_product_row d pid = Some p \<and> custodian p = actor
             \<and> get_product_row d' pid = Some p'
             \<and> (map_of NEXT_ROLE_MAP new_status \<noteq> None
                   \<longrightarrow> transfer_to = Some (custodian p'))
             \<and> (map_of NEXT_ROLE_MAP new_status = None
                   \<longrightarrow> custodian p' = custodian p)
             \<and> (\<forall>q. q \<noteq> pid \<longrightarrow> get_product_row d' q = get_product_row d q))"
    by (rule impI)
  from rej have rej': "(\<forall>p' b. fst (explicit_custody_transfer add_block fmt actor role pid_opt
                      status_opt transfer_to lat lon (d, bc)) \<noteq> Updated p' b)
      \<longrightarrow> fst (snd (explicit_custody_transfer add_block fmt actor role pid_opt status_opt
                       transfer_to lat lon (d, bc))) = d"
    by (rule impI)
  from acc' rej' cre del show ?thesis
    by (intro conjI)
qed

theorem custodian_changes_only_on_handoff_witness:
  "explicit_custody_transfer recording_ledger id ''alice'' ''manufacturer''
       (Some ''P1'') (Some ''ReadyForShipping'') (Some ''bob'') None None
       (sample_store ''alice'' ''Created'', [])
     = (Updated \<lparr>product_id = ''P1'', name = ''Widget'', owner = ''alice'',
                 custodian = ''bob'', current_status = ''ReadyForShipping'',
                 description = []\<rparr> (Some 0),
        \<lparr>products = [\<lparr>product_id = ''P1'', name = ''Widget'', owner = ''alice'',
                       custodian = ''bob'', current_status = ''ReadyForShipping'',
                       description = []\<rparr>],
          histories = [\<lparr>h_product_id = ''P1'', status = ''ReadyForShipping'',
                        by_who = ''alice'', timestamp = None, latitude = None,
                        longitude = None\<rparr>],
          users = sample_users\<rparr>,
        [transfer_event id ''P1'' ''ReadyForShipping'' ''alice'' ''bob'' None None])
   \<and> (\<exists>pid new_status p.
         Some ''P1'' = Some pid \<and> Some ''ReadyForShipping'' = Some new_status
         \<and> get_product_row (sample_store ''alice'' ''Created'') pid = Some p
         \<and> custodian p = ''alice''
         \<and> get_product_row
               (\<lparr>products = [\<lparr>product_id = ''P1'', name = ''Widget'', owner = ''alice'',
                       custodian = ''bob'', current_status = ''ReadyForShipping'',
                       description = []\<rparr>],
          histories = [\<lparr>h_product_id = ''P1'', status = ''ReadyForShipping'',
                        by_who = ''alice'', timestamp = None, latitude = None,
                        longitude = None\<rparr>],
          users = sample_users\<rparr> :: (string, nat) db) pid
             = Some \<lparr>product_id = ''P1'', name = ''Widget'', owner = ''alice'',
                 custodian = ''bob'', current_status = ''ReadyForShipping'',
                 description = []\<rparr>
         \<and> (map_of NEXT_ROLE_MAP new_status \<noteq> None
               \<longrightarrow> Some ''bob''
                    = Some (custodian \<lparr>product_id = ''P1'', name = ''Widget'', owner = ''alice'',
                 custodian = ''bob'', current_status = ''ReadyForShipping'',
                 description = []\<rparr>))
         \<and> (map_of NEXT_ROLE_MAP new_status = None
               \<longrightarrow> custodian \<lparr>product_id = ''P1'', name = ''Widget'', owner = ''alice'',
                 custodian = ''bob'', current_status = ''ReadyForShipping'',
                 description = []\<rparr>
                    = custodian p)
         \<and> (\<forall>q. q \<noteq> pid
               \<longrightarrow> get_product_row
                      (\<lparr>products = [\<lparr>product_id = ''P1'', name = ''Widget'', owner = ''alice'',
                       custodian = ''bob'', current_status = ''ReadyForShipping'',
                       description = []\<rparr>],
          histories = [\<lparr>h_product_id = ''P1'', status = ''ReadyForShipping'',
                        by_who = ''alice'', timestamp = None, latitude = None,
                        longitude = None\<rparr>],
          users = sample_users\<rparr> :: (string, nat) db) q
                    = get_product_row (sample_store ''alice'' ''Created'') q))"
proof -
  note inst = custodian_changes_only_on_handoff [where add_block = recording_ledger
      and fmt = id and actor = "''alice''" and role = "''manufacturer''"
      and pid_opt = "Some ''P1''" and status_opt = "Some ''ReadyForShipping''"
      and transfer_to = "Some ''bob''" and lat = None and lon = None
      and d = "sample_store ''alice'' ''Created''" and bc = "[]"
      and p' = "\<lparr>product_id = ''P1'', name = ''Widget'', owner = ''alice'',
                 custodian = ''bob'', current_status = ''ReadyForShipping'',
                 description = []\<rparr>"
      and b = "Some 0"
      and d' = "\<lparr>products = [\<lparr>product_id = ''P1'', name = ''Widget'', owner = ''alice'',
                       custodian = ''bob'', current_status = ''ReadyForShipping'',
                       description = []\<rparr>],
          histories = [\<lparr>h_product_id = ''P1'', status = ''ReadyForShipping'',
                        by_who = ''alice'', timestamp = None, latitude = None,
                        longitude = None\<rparr>],
          users = sample_users\<rparr>"
      and bc' = "[transfer_event id ''P1'' ''ReadyForShipping'' ''alice'' ''bob'' None None]"
      and new_pid = "''P2''" and now = 0 and name_opt = None and description_opt = None
      and deleted_pid = "''P1''"]
  from scenario_B inst [THEN conjunct1, THEN mp, OF scenario_B]
  show ?thesis by (rule conjI)
qed

text \<open>
  C8. The payload that creation hands to the ledger (whenever the product name is
  there; without a name nothing is appended) and the payload that an accepted transfer
  hands to the ledger carry under the key \<^verbatim>\<open>location\<close> the text of the latitude, a
  comma and the text of the longitude when the request supplies both coordinates, and
  the text \<^verbatim>\<open>N/A\<close> when the latitude is absent, so in particular when both are absent.
  (The source tests the latitude only; a request with a latitude and no longitude,
  which the claim does not speak of, gets the longitude written as \<^verbatim>\<open>None\<close>.)
\<close>

theorem ledger_event_location:
  "snd (snd (create_product add_block fmt new_pid now actor name_opt description_opt
               lat lon (d, bc)))
     = (if falsy name_opt then bc
        else snd (add_block (create_event fmt new_pid actor lat lon) bc))
   \<and> map_of (create_event fmt new_pid actor lat lon) ''location''
       = Some (location fmt lat lon)
   \<and> (explicit_custody_transfer add_block fmt actor role pid_opt status_opt
         transfer_to lat lon (d, bc) = (Updated p' b, d', bc')
       \<longrightarrow> (\<exists>pid new_status nc.
              pid_opt = Some pid \<and> status_opt = Some new_status
              \<and> bc' = snd (add_block
                            (transfer_event fmt pid new_status actor nc lat lon) bc)
              \<and> map_of (transfer_event fmt pid new_status actor nc lat lon) ''location''
                  = Some (location fmt lat lon)))
   \<and> location fmt (Some x) (Some y) = fmt x @ '','' @ fmt y
   \<and> location fmt None z = ''N/A''"
proof -
  have tr: "\<exists>pid new_status nc.
              pid_opt = Some pid \<and> status_opt = Some new_status
              \<and> bc' = snd (add_block
                            (transfer_event fmt pid new_status actor nc lat lon) bc)
              \<and> map_of (transfer_event fmt pid new_status actor nc lat lon) ''location''
                  = Some (location fmt lat lon)"
    if "explicit_custody_transfer add_block fmt actor role pid_opt status_opt
          transfer_to lat lon (d, bc) = (Updated p' b, d', bc')"
  proof -
    from that obtain pid new_status nc where
      "pid_opt = Some pid" "status_opt = Some new_status"
      "bc' = snd (add_block (transfer_event fmt pid new_status actor nc lat lon) bc)"
      by (rule ect_accepted_full)
    moreover
    have "map_of (transfer_event fmt pid new_status actor nc lat lon) ''location''
            = Some (location fmt lat lon)"
      by (simp add: transfer_event_def)
    ultimately show ?thesis by blast
  qed
  have cr: "map_of (create_event fmt new_pid actor lat lon) ''location''
              = Some (location fmt lat lon)"
    by (simp add: create_event_def)
  have l1: "location fmt (Some x) (Some y) = fmt x @ '','' @ fmt y"
    and l2: "location fmt None z = ''N/A''"
    by (simp_all add: location_def)
  from create_product_ledger [of add_block fmt new_pid now actor name_opt description_opt
                                 lat lon d bc] cr tr l1 l2
  show ?thesis by blast
qed

theorem ledger_event_location_witness:
  "explicit_custody_transfer recording_ledger id ''alice'' ''manufacturer''
       (Some ''P1'') (Some ''ReadyForShipping'') (Some ''bob'')
       (Some ''12.5'') (Some ''77.6'') (sample_store ''alice'' ''Created'', [])
     = (Updated \<lparr>product_id = ''P1'', name = ''Widget'', owner = ''alice'',
                 custodian = ''bob'', current_status = ''ReadyForShipping'',
                 description = []\<rparr> (Some 0),
        \<lparr>products = [\<lparr>product_id = ''P1'', name = ''Widget'', owner = ''alice'',
                       custodian = ''bob'', current_status = ''ReadyForShipping'',
                       description = []\<rparr>],
          histories = [\<lparr>h_product_id = ''P1'', status = ''ReadyForShipping'',
                        by_who = ''alice'', timestamp = None, latitude = Some ''12.5'',
                        longitude = Some ''77.6''\<rparr>],
          users = sample_users\<rparr>,
        [transfer_event id ''P1'' ''ReadyForShipping'' ''alice'' ''bob''
           (Some ''12.5'') (Some ''77.6'')])
   \<and> (\<exists>pid new_status nc.
         Some ''P1'' = Some pid \<and> Some ''ReadyForShipping'' = Some new_status
         \<and> [transfer_event id ''P1'' ''ReadyForShipping'' ''alice'' ''bob''
               (Some ''12.5'') (Some ''77.6'')]
             = snd (recording_ledger
                      (transfer_event id pid new_status ''alice'' nc
                         (Some ''12.5'') (Some ''77.6'')) [])
         \<and> map_of (transfer_event id pid new_status ''alice'' nc
                     (Some ''12.5'') (Some ''77.6'')) ''location''
             = Some (location id (Some ''12.5'') (Some ''77.6'')))
   \<and> location id (Some ''12.5'') (Some ''77.6'') = ''12.5,77.6''
   \<and> \<not> falsy (Some ''Gadget'')
   \<and> snd (snd (create_product recording_ledger id ''P2'' (7::nat) ''alice''
                 (Some ''Gadget'') None None None (sample_store ''alice'' ''Created'', [])))
       = [create_event id ''P2'' ''alice'' None None]
   \<and> map_of (create_event id ''P2'' ''alice'' (None :: string option) None) ''location''
       = Some ''N/A''"
proof -
  have ev: "explicit_custody_transfer recording_ledger id ''alice'' ''manufacturer''
       (Some ''P1'') (Some ''ReadyForShipping'') (Some ''bob'')
       (Some ''12.5'') (Some ''77.6'') (sample_store ''alice'' ''Created'', [])
     = (Updated \<lparr>product_id = ''P1'', name = ''Widget'', owner = ''alice'',
                 custodian = ''bob'', current_status = ''ReadyForShipping'',
                 description = []\<rparr> (Some 0),
        \<lparr>products = [\<lparr>product_id = ''P1'', name = ''Widget'', owner = ''alice'',
                       custodian = ''bob'', current_status = ''ReadyForShipping'',
                       description = []\<rparr>],
          histories = [\<lparr>h_product_id = ''P1'', status = ''ReadyForShipping'',
                        by_who = ''alice'', timestamp = None, latitude = Some ''12.5'',
                        longitude = Some ''77.6''\<rparr>],
          users = sample_users\<rparr>,
        [transfer_event id ''P1'' ''ReadyForShipping'' ''alice'' ''bob''
           (Some ''12.5'') (Some ''77.6'')])"
    by (simp add: explicit_custody_transfer_def commit_transfer_def sample_store_def
          recording_ledger_def get_product_row_def get_user_row_def sample_users_def
          table_defs Let_def)
  note tr = ledger_event_location [where add_block = recording_ledger and fmt = id
      and new_pid = "''P2''" and now = "7::nat" and actor = "''alice''"
      and name_opt = "Some ''Gadget''" and description_opt = None
      and lat = "Some ''12.5''" and lon = "Some ''77.6''"
      and d = "sample_store ''alice'' ''Created''" and bc = "[]"
      and x = "''12.5''" and y = "''77.6''" and z = None
      and role = "''manufacturer''" and pid_opt = "Some ''P1''"
      and status_opt = "Some ''ReadyForShipping''" and transfer_to = "Some ''bob''"]
  note cr = ledger_event_location [where add_block = recording_ledger and fmt = id
      and new_pid = "''P2''" and now = "7::nat" and actor = "''alice''"
      and name_opt = "Some ''Gadget''" and description_opt = None
      and lat = "None :: string option" and lon = None
      and d = "sample_store ''alice'' ''Created''" and bc = "[]"
      and x = "''12.5''" and y = "''77.6''" and z = None]
  have t1: "(\<exists>pid new_status nc.
         Some ''P1'' = Some pid \<and> Some ''ReadyForShipping'' = Some new_status
         \<and> [transfer_event id ''P1'' ''ReadyForShipping'' ''alice'' ''bob''
               (Some ''12.5'') (Some ''77.6'')]
             = snd (recording_ledger
                      (transfer_event id pid new_status ''alice'' nc
                         (Some ''12.5'') (Some ''77.6'')) [])
         \<and> map_of (transfer_event id pid new_status ''alice'' nc
                     (Some ''12.5'') (Some ''77.6'')) ''location''
             = Some (location id (Some ''12.5'') (Some ''77.6'')))"
    by (rule tr [THEN conjunct2, THEN conjunct2, THEN conjunct1, THEN mp, OF ev])
  have t2: "location id (Some ''12.5'') (Some ''77.6'') = ''12.5,77.6''"
    using tr [THEN conjunct2, THEN conjunct2, THEN conjunct2, THEN conjunct1] by simp
  have nf: "\<not> falsy (Some ''Gadget'')" by simp
  have c1: "snd (snd (create_product recording_ledger id ''P2'' (7::nat) ''alice''
                 (Some ''Gadget'') None None None (sample_store ''alice'' ''Created'', [])))
       = [create_event id ''P2'' ''alice'' None None]"
    using cr [THEN conjunct1] by (simp add: recording_ledger_def)
  have c2: "map_of (create_event id ''P2'' ''alice'' (None :: string option) None)
              ''location'' = Some ''N/A''"
    using cr [THEN conjunct2, THEN conjunct1]
          cr [THEN conjunct2, THEN conjunct2, THEN conjunct2, THEN conjunct2] by simp
  from ev t1 t2 nf c1 c2 show ?thesis by (intro conjI)
qed

text \<open>
  C9, as stated: whatever the role and the state of the product, a request for
  \<^verbatim>\<open>Recalled\<close> is turned down at the role test. It is not when an earlier test turns it
  down: carol, who does not hold \<^verbatim>\<open>P1\<close>, is told that she is not the custodian.
\<close>

theorem recalled_request_by_stranger_gets_custodian_error:
  "fst (explicit_custody_transfer recording_ledger id ''carol'' ''distributor''
          (Some ''P1'') (Some ''Recalled'') None None None
          (sample_store ''bob'' ''ReadyForShipping'', []))
     = ErrorJson (''Action failed: You are not the current custodian (''
                  @ sq @ ''bob'' @ sq @ '')'') 403
   \<and> fst (explicit_custody_transfer recording_ledger id ''carol'' ''distributor''
            (Some ''P1'') (Some ''Recalled'') None None None
            (sample_store ''bob'' ''ReadyForShipping'', []))
       \<noteq> ErrorJson (''Your role '' @ sq @ ''distributor'' @ sq @ '' cannot set status ''
                    @ sq @ ''Recalled'' @ sq) 403"
  by (simp add: explicit_custody_transfer_def sample_defs)

text \<open>
  C9, amended. \<^verbatim>\<open>Recalled\<close> is in the status order and in the list of no role. So no
  request for \<^verbatim>\<open>Recalled\<close> is accepted, whatever the actor, the role and the state of
  the product, and store and ledger stay as they were; the request is turned down by
  the role test whenever it gets that far (product id not empty, product found, actor
  custodian or super_admin) and by an earlier test otherwise. No accepted transfer
  leaves a product at \<^verbatim>\<open>Recalled\<close>.
\<close>

theorem recalled_is_never_set:
  "''Recalled'' \<in> set STATUS_ORDER
   \<and> ''Recalled'' \<notin> set (role_allowed role)
   \<and> (\<forall>p' b. fst (explicit_custody_transfer add_block fmt actor role pid_opt
                     (Some ''Recalled'') transfer_to lat lon (d, bc)) \<noteq> Updated p' b)
   \<and> snd (explicit_custody_transfer add_block fmt actor role pid_opt
             (Some ''Recalled'') transfer_to lat lon (d, bc)) = (d, bc)
   \<and> (pid \<noteq> [] \<and> get_product_row d pid = Some p
        \<and> (custodian p = actor \<or> role = ''super_admin'')
      \<longrightarrow> explicit_custody_transfer add_block fmt actor role (Some pid)
              (Some ''Recalled'') transfer_to lat lon (d, bc)
            = (ErrorJson (''Your role '' @ sq @ role @ sq @ '' cannot set status ''
                          @ sq @ ''Recalled'' @ sq) 403, d, bc))
   \<and> (explicit_custody_transfer add_block fmt actor role pid_opt status_opt
         transfer_to lat lon (d, bc) = (Updated p' b, d', bc')
      \<longrightarrow> status_opt \<noteq> Some ''Recalled'' \<and> current_status p' \<noteq> ''Recalled'')"
proof -
  let ?R = "explicit_custody_transfer add_block fmt actor role pid_opt
              (Some ''Recalled'') transfer_to lat lon (d, bc)"
  have t1: "''Recalled'' \<in> set STATUS_ORDER"
    by (simp add: STATUS_ORDER_def)
  have t2: "''Recalled'' \<notin> set (role_allowed role)"
    by (rule role_allowed_not_recalled)
  have acc: "status_opt \<noteq> Some ''Recalled'' \<and> current_status p' \<noteq> ''Recalled''"
    if "explicit_custody_transfer add_block fmt actor role pid_opt status_opt
          transfer_to lat lon (d, bc) = (Updated p' b, d', bc')"
    for status_opt p' b d' bc'
  proof -
    from that obtain new_status p nc where
      s: "status_opt = Some new_status" and
      a: "new_status \<in> set (role_allowed role)" and
      p: "p' = p\<lparr>custodian := nc, current_status := new_status\<rparr>"
      by (rule ect_accepted_full)
    from a t2 have "new_status \<noteq> ''Recalled''" by auto
    with s p show ?thesis by simp
  qed
  have no: "\<forall>p' b. fst ?R \<noteq> Updated p' b"
  proof (intro allI notI)
    fix p' b
    assume "fst ?R = Updated p' b"
    then have "?R = (Updated p' b, fst (snd ?R), snd (snd ?R))"
      by (metis prod.collapse)
    from acc [OF this] show False by simp
  qed
  have same: "snd ?R = (d, bc)"
    using no ect_unchanged_or_updated [of add_block fmt actor role pid_opt
                                          "Some ''Recalled''" transfer_to lat lon "(d, bc)"]
    by auto
  have exact: "explicit_custody_transfer add_block fmt actor role (Some pid)
                 (Some ''Recalled'') transfer_to lat lon (d, bc)
               = (ErrorJson (''Your role '' @ sq @ role @ sq @ '' cannot set status ''
                             @ sq @ ''Recalled'' @ sq) 403, d, bc)"
    if "pid \<noteq> []" "get_product_row d pid = Some p"
       "custodian p = actor \<or> role = ''super_admin''"
  proof -
    have ne: "''Recalled'' \<noteq> []" by simp
    from that(2) have g: "get_product_row (fst (d, bc)) pid = Some p" by simp
    from ect_role_denied [OF that(1) ne g that(3) t2, of add_block fmt transfer_to lat lon]
    show ?thesis by simp
  qed
  have exact': "pid \<noteq> [] \<and> get_product_row d pid = Some p
        \<and> (custodian p = actor \<or> role = ''super_admin'')
      \<longrightarrow> explicit_custody_transfer add_block fmt actor role (Some pid)
              (Some ''Recalled'') transfer_to lat lon (d, bc)
            = (ErrorJson (''Your role '' @ sq @ role @ sq @ '' cannot set status ''
                          @ sq @ ''Recalled'' @ sq) 403, d, bc)"
    by (intro impI) (elim conjE, rule exact)
  have acc': "explicit_custody_transfer add_block fmt actor role pid_opt status_opt
         transfer_to lat lon (d, bc) = (Updated p' b, d', bc')
      \<longrightarrow> status_opt \<noteq> Some ''Recalled'' \<and> current_status p' \<noteq> ''Recalled''"
    by (intro impI) (rule acc)
  from t1 t2 no same exact' acc' show ?thesis
    by (intro conjI)
qed

theorem recalled_is_never_set_witness:
  "''P1'' \<noteq> []
   \<and> get_product_row (sample_store ''bob'' ''Shipped'') ''P1''
       = Some \<lparr>product_id = ''P1'', name = ''Widget'', owner = ''alice'',
               custodian = ''bob'', current_status = ''Shipped'', description = []\<rparr>
   \<and> explicit_custody_transfer recording_ledger id ''bob'' ''distributor''
        (Some ''P1'') (Some ''Recalled'') None None None
        (sample_store ''bob'' ''Shipped'', [])
       = (ErrorJson (''Your role '' @ sq @ ''distributor'' @ sq @ '' cannot set status ''
                     @ sq @ ''Recalled'' @ sq) 403,
          sample_store ''bob'' ''Shipped'', [])"
proof -
  let ?p = "\<lparr>product_id = ''P1'', name = ''Widget'', owner = ''alice'',
             custodian = ''bob'', current_status = ''Shipped'', description = []\<rparr>"
  have a: "''P1'' \<noteq> []" by simp
  have gp: "get_product_row (sample_store ''bob'' ''Shipped'') ''P1'' = Some ?p"
    by (simp add: sample_defs)
  have cu: "custodian ?p = ''bob'' \<or> ''distributor'' = ''super_admin''" by simp
  note inst = recalled_is_never_set [where add_block = recording_ledger and fmt = id
      and actor = "''bob''" and role = "''distributor''" and pid = "''P1''" and p = ?p
      and transfer_to = None and lat = None and lon = None
      and d = "sample_store ''bob'' ''Shipped''" and bc = "[]"]
  from a gp cu
  have "explicit_custody_transfer recording_ledger id ''bob'' ''distributor''
        (Some ''P1'') (Some ''Recalled'') None None None
        (sample_store ''bob'' ''Shipped'', [])
       = (ErrorJson (''Your role '' @ sq @ ''distributor'' @ sq @ '' cannot set status ''
                     @ sq @ ''Recalled'' @ sq) 403,
          sample_store ''bob'' ''Shipped'', [])"
    by (intro inst [THEN conjunct2, THEN conjunct2, THEN conjunct2, THEN conjunct2,
                    THEN conjunct1, THEN mp] conjI)
  with a gp show ?thesis by (intro conjI)
qed

text \<open>
  C10, as stated: every request by a super_admin is turned down at the role test. It
  is not when the request names no existing product (or lacks a field): those tests
  come before. Here a super_admin asks about \<^verbatim>\<open>P9\<close>, which does not exist.
\<close>

theorem admin_request_for_unknown_product_gets_404:
  "get_product_row (sample_store ''bob'' ''Shipped'') ''P9'' = None
   \<and> fst (explicit_custody_transfer recording_ledger id ''root'' ''super_admin''
            (Some ''P9'') (Some ''Sold'') None None None
            (sample_store ''bob'' ''Shipped'', []))
       = ErrorJson ''Product not found'' 404
   \<and> fst (explicit_custody_transfer recording_ledger id ''root'' ''super_admin''
            (Some ''P9'') (Some ''Sold'') None None None
            (sample_store ''bob'' ''Shipped'', []))
       \<noteq> ErrorJson (''Your role '' @ sq @ ''super_admin'' @ sq @ '' cannot set status ''
                    @ sq @ ''Sold'' @ sq) 403"
  by (simp add: explicit_custody_transfer_def sample_defs)

text \<open>
  C10, amended. The role super_admin gets past the custodian test but has no entry in
  \<^verbatim>\<open>ROLE_ALLOWED\<close>. So no request by a super_admin is accepted, and store and ledger stay
  as they were; a request by a super_admin that carries a product id and a status, both
  not empty, and names an existing product is turned down at the role test, whoever
  holds the product; the others are turned down by the tests before it. Consequently
  every accepted transfer was asked by the custodian of the product, with a role other
  than super_admin.
\<close>

theorem super_admin_never_accepted:
  "role_allowed ''super_admin'' = []
   \<and> (\<forall>p' b. fst (explicit_custody_transfer add_block fmt actor ''super_admin'' pid_opt
                     status_opt transfer_to lat lon (d, bc)) \<noteq> Updated p' b)
   \<and> snd (explicit_custody_transfer add_block fmt actor ''super_admin'' pid_opt
             status_opt transfer_to lat lon (d, bc)) = (d, bc)
   \<and> (pid \<noteq> [] \<and> new_status \<noteq> [] \<and> get_product_row d pid = Some p
      \<longrightarrow> explicit_custody_transfer add_block fmt actor ''super_admin'' (Some pid)
              (Some new_status) transfer_to lat lon (d, bc)
            = (ErrorJson (''Your role '' @ sq @ ''super_admin'' @ sq
                          @ '' cannot set status '' @ sq @ new_status @ sq) 403, d, bc))
   \<and> (explicit_custody_transfer add_block fmt actor role pid_opt status_opt
         transfer_to lat lon (d, bc) = (Updated p' b, d', bc')
      \<longrightarrow> role \<noteq> ''super_admin''
          \<and> (\<exists>pid p. pid_opt = Some pid \<and> get_product_row d pid = Some p
                      \<and> custodian p = actor))"
proof -
  let ?R = "explicit_custody_transfer add_block fmt actor ''super_admin'' pid_opt
              status_opt transfer_to lat lon (d, bc)"
  have t1: "role_allowed ''super_admin'' = []"
    by (rule role_allowed_super_admin)
  have acc: "role \<noteq> ''super_admin''
             \<and> (\<exists>pid p. pid_opt = Some pid \<and> get_product_row d pid = Some p
                         \<and> custodian p = actor)"
    if "explicit_custody_transfer add_block fmt actor role pid_opt status_opt
          transfer_to lat lon (d, bc) = (Updated p' b, d', bc')"
    for role p' b d' bc'
  proof -
    from that obtain pid p where
      "pid_opt = Some pid" "get_product_row d pid = Some p" "custodian p = actor"
      "role \<noteq> ''super_admin''"
      by (rule ect_accepted_full)
    then show ?thesis by blast
  qed
  have no: "\<forall>p' b. fst ?R \<noteq> Updated p' b"
  proof (intro allI notI)
    fix p' b
    assume "fst ?R = Updated p' b"
    then have "?R = (Updated p' b, fst (snd ?R), snd (snd ?R))"
      by (metis prod.collapse)
    from acc [OF this] show False by simp
  qed
  have same: "snd ?R = (d, bc)"
    using no ect_unchanged_or_updated [of add_block fmt actor "''super_admin''" pid_opt
                                          status_opt transfer_to lat lon "(d, bc)"]
    by auto
  have exact: "explicit_custody_transfer add_block fmt actor ''super_admin'' (Some pid)
                 (Some new_status) transfer_to lat lon (d, bc)
               = (ErrorJson (''Your role '' @ sq @ ''super_admin'' @ sq
                             @ '' cannot set status '' @ sq @ new_status @ sq) 403, d, bc)"
    if "pid \<noteq> []" "new_status \<noteq> []" "get_product_row d pid = Some p"
  proof -
    from that(3) have g: "get_product_row (fst (d, bc)) pid = Some p" by simp
    have c: "custodian p = actor \<or> ''super_admin'' = ''super_admin''" by simp
    have n: "new_status \<notin> set (role_allowed ''super_admin'')" by (simp add: t1)
    from ect_role_denied [OF that(1,2) g c n, of add_block fmt transfer_to lat lon]
    show ?thesis by simp
  qed
  have exact': "pid \<noteq> [] \<and> new_status \<noteq> [] \<and> get_product_row d pid = Some p
      \<longrightarrow> explicit_custody_transfer add_block fmt actor ''super_admin'' (Some pid)
              (Some new_status) transfer_to lat lon (d, bc)
            = (ErrorJson (''Your role '' @ sq @ ''super_admin'' @ sq
                          @ '' cannot set status '' @ sq @ new_status @ sq) 403, d, bc)"
    by (intro impI) (elim conjE, rule exact)
  have acc': "explicit_custody_transfer add_block fmt actor role pid_opt status_opt
         transfer_to lat lon (d, bc) = (Updated p' b, d', bc')
      \<longrightarrow> role \<noteq> ''super_admin''
          \<and> (\<exists>pid p. pid_opt = Some pid \<and> get_product_row d pid = Some p
                      \<and> custodian p = actor)"
    by (intro impI) (rule acc)
  from t1 no same exact' acc' show ?thesis
    by (intro conjI)
qed

theorem super_admin_never_accepted_witness:
  "''P1'' \<noteq> [] \<and> ''Sold'' \<noteq> []
   \<and> get_product_row (sample_store ''bob'' ''Shipped'') ''P1''
       = Some \<lparr>product_id = ''P1'', name = ''Widget'', owner = ''alice'',
               custodian = ''bob'', current_status = ''Shipped'', description = []\<rparr>
   \<and> explicit_custody_transfer recording_ledger id ''root'' ''super_admin''
        (Some ''P1'') (Some ''Sold'') None None None
        (sample_store ''bob'' ''Shipped'', [])
       = (ErrorJson (''Your role '' @ sq @ ''super_admin'' @ sq @ '' cannot set status ''
                     @ sq @ ''Sold'' @ sq) 403,
          sample_store ''bob'' ''Shipped'', [])"
proof -
  let ?p = "\<lparr>product_id = ''P1'', name = ''Widget'', owner = ''alice'',
             custodian = ''bob'', current_status = ''Shipped'', description = []\<rparr>"
  have a: "''P1'' \<noteq> []" and b: "''Sold'' \<noteq> []" by simp_all
  have gp: "get_product_row (sample_store ''bob'' ''Shipped'') ''P1'' = Some ?p"
    by (simp add: sample_defs)
  note inst = super_admin_never_accepted [where add_block = recording_ledger and fmt = id
      and actor = "''root''" and pid = "''P1''" and new_status = "''Sold''" and p = ?p
      and transfer_to = None and lat = None and lon = None
      and d = "sample_store ''bob'' ''Shipped''" and bc = "[]"]
  from a b gp
  have "explicit_custody_transfer recording_ledger id ''root'' ''super_admin''
        (Some ''P1'') (Some ''Sold'') None None None
        (sample_store ''bob'' ''Shipped'', [])
       = (ErrorJson (''Your role '' @ sq @ ''super_admin'' @ sq @ '' cannot set status ''
                     @ sq @ ''Sold'' @ sq) 403,
          sample_store ''bob'' ''Shipped'', [])"
    by (intro inst [THEN conjunct2, THEN conjunct2, THEN conjunct2, THEN conjunct1,
                    THEN mp] conjI)
  with a b gp show ?thesis by (intro conjI)
qed

end
